theory Spec2Isabelle
  imports Complex_Main
begin

section \<open>Shallow embedding of the stadium simulation (src/src/App.jsx)\<close>

text \<open>
  JavaScript Numbers that carry coordinates and random draws are modelled as
  \<^typ>\<open>real\<close> with exact arithmetic; counters, scores and millisecond
  timestamps are modelled as \<^typ>\<open>int\<close>. Every \<^verbatim>\<open>Math.random()\<close> call
  reads the next element of an explicit source of draws, so that a tick is a
  function of its inputs. Calls to \<^verbatim>\<open>addLog\<close> only feed the log panel; the
  log entries are left out, while the draws that decide on a log entry and the
  draw that each call of \<^verbatim>\<open>addLog\<close> makes for the id of its entry are kept.
\<close>

subsection \<open>Configuration\<close>

definition MOVEMENT_SPEED :: real where
  "MOVEMENT_SPEED = 0.00008"

datatype game_phase =
  PRE_GAME | KICKOFF | Q1 | Q2 | HALFTIME | Q3 | Q4 | POST_GAME

record phase_info =
  phase :: game_phase
  label :: string
  duration :: int
  crowdDensity :: real
  color :: string

definition GAME_PHASES :: "phase_info list" where
  "GAME_PHASES =
    [\<lparr>phase = PRE_GAME, label = ''Pre-Game'', duration = 20, crowdDensity = 0.4, color = ''cyan''\<rparr>,
     \<lparr>phase = KICKOFF, label = ''Kickoff!'', duration = 10, crowdDensity = 0.95, color = ''emerald''\<rparr>,
     \<lparr>phase = Q1, label = ''1st Quarter'', duration = 40, crowdDensity = 0.9, color = ''emerald''\<rparr>,
     \<lparr>phase = Q2, label = ''2nd Quarter'', duration = 40, crowdDensity = 0.88, color = ''emerald''\<rparr>,
     \<lparr>phase = HALFTIME, label = ''Halftime'', duration = 25, crowdDensity = 0.5, color = ''amber''\<rparr>,
     \<lparr>phase = Q3, label = ''3rd Quarter'', duration = 40, crowdDensity = 0.85, color = ''emerald''\<rparr>,
     \<lparr>phase = Q4, label = ''4th Quarter'', duration = 40, crowdDensity = 0.8, color = ''emerald''\<rparr>,
     \<lparr>phase = POST_GAME, label = ''Post-Game'', duration = 30, crowdDensity = 0.3, color = ''slate''\<rparr>]"

subsection \<open>Stadium zones\<close>

datatype zone_type = Public | Restricted | VipZone | Critical | Concourse | Outside

text \<open>The \<^verbatim>\<open>properties\<close> object of a feature; the synthetic outside zone has no id.\<close>

record zone_props =
  zone_name :: string
  zoneType :: zone_type
  zone_id :: "string option"

type_synonym point = "real \<times> real"

record feature =
  properties :: zone_props
  coordinates :: "point list"

definition bowl :: feature where
  "bowl = \<lparr>properties = \<lparr>zone_name = ''Stadium Bowl'', zoneType = Public, zone_id = Some ''bowl''\<rparr>,
     coordinates = [(-86.1655, 39.7615), (-86.1617, 39.7615),
                    (-86.1617, 39.7588), (-86.1655, 39.7588),
                    (-86.1655, 39.7615)]\<rparr>"

definition field :: feature where
  "field = \<lparr>properties = \<lparr>zone_name = ''Field Level'', zoneType = Restricted, zone_id = Some ''field''\<rparr>,
     coordinates = [(-86.1648, 39.7608), (-86.1624, 39.7608),
                    (-86.1624, 39.7594), (-86.1648, 39.7594),
                    (-86.1648, 39.7608)]\<rparr>"

definition vip_north :: feature where
  "vip_north = \<lparr>properties = \<lparr>zone_name = ''VIP Suites North'', zoneType = VipZone, zone_id = Some ''vip-north''\<rparr>,
     coordinates = [(-86.1650, 39.7615), (-86.1622, 39.7615),
                    (-86.1622, 39.7611), (-86.1650, 39.7611),
                    (-86.1650, 39.7615)]\<rparr>"

definition vip_south :: feature where
  "vip_south = \<lparr>properties = \<lparr>zone_name = ''VIP Suites South'', zoneType = VipZone, zone_id = Some ''vip-south''\<rparr>,
     coordinates = [(-86.1650, 39.7591), (-86.1622, 39.7591),
                    (-86.1622, 39.7587), (-86.1650, 39.7587),
                    (-86.1650, 39.7591)]\<rparr>"

definition tunnel :: feature where
  "tunnel = \<lparr>properties = \<lparr>zone_name = ''Team Tunnel'', zoneType = Critical, zone_id = Some ''tunnel''\<rparr>,
     coordinates = [(-86.1638, 39.7594), (-86.1634, 39.7594),
                    (-86.1634, 39.7588), (-86.1638, 39.7588),
                    (-86.1638, 39.7594)]\<rparr>"

definition concourse_e :: feature where
  "concourse_e = \<lparr>properties = \<lparr>zone_name = ''East Concourse'', zoneType = Concourse, zone_id = Some ''concourse-e''\<rparr>,
     coordinates = [(-86.1620, 39.7612), (-86.1615, 39.7612),
                    (-86.1615, 39.7590), (-86.1620, 39.7590),
                    (-86.1620, 39.7612)]\<rparr>"

definition concourse_w :: feature where
  "concourse_w = \<lparr>properties = \<lparr>zone_name = ''West Concourse'', zoneType = Concourse, zone_id = Some ''concourse-w''\<rparr>,
     coordinates = [(-86.1657, 39.7612), (-86.1652, 39.7612),
                    (-86.1652, 39.7590), (-86.1657, 39.7590),
                    (-86.1657, 39.7612)]\<rparr>"

text \<open>\<^verbatim>\<open>geoJsonData.features\<close>, in the order of the source.\<close>

definition features :: "feature list" where
  "features = [bowl, field, vip_north, vip_south, tunnel, concourse_e, concourse_w]"

definition outside_zone :: zone_props where
  "outside_zone = \<lparr>zone_name = ''Outside'', zoneType = Outside, zone_id = None\<rparr>"

subsection \<open>Helpers\<close>

text \<open>
  The edge test of the ray-casting loop, for the vertex \<open>vi\<close> and its predecessor
  \<open>vj\<close>. The \<^verbatim>\<open>&&\<close> of the source evaluates the quotient only when the two
  ordinates lie on different sides of \<open>y\<close>, hence only for \<open>yj \<noteq> yi\<close>.
\<close>

definition intersect :: "point \<Rightarrow> point \<Rightarrow> point \<Rightarrow> bool" where
  "intersect p vi vj =
    (let x = fst p; y = snd p; xi = fst vi; yi = snd vi; xj = fst vj; yj = snd vj
     in ((yi > y) \<noteq> (yj > y)) \<and> x < (xj - xi) * (y - yi) / (yj - yi) + xi)"

text \<open>The loop \<^verbatim>\<open>for (i = 0, j = vs.length - 1; i < vs.length; j = i++)\<close>:
  the vertices still to visit, the vertex \<open>vs[j]\<close>, and the flag \<open>inside\<close>.\<close>

fun pip_loop :: "point \<Rightarrow> point list \<Rightarrow> point \<Rightarrow> bool \<Rightarrow> bool" where
  "pip_loop p [] vj inside = inside"
| "pip_loop p (vi # vs) vj inside =
     pip_loop p vs vi (if intersect p vi vj then \<not> inside else inside)"

definition isPointInPolygon :: "point \<Rightarrow> point list \<Rightarrow> bool" where
  "isPointInPolygon p vs = (if vs = [] then False else pip_loop p vs (last vs) False)"

fun zone_search :: "real \<Rightarrow> real \<Rightarrow> feature list \<Rightarrow> zone_props" where
  "zone_search lng lat [] = outside_zone"
| "zone_search lng lat (f # fs) =
     (if isPointInPolygon (lng, lat) (coordinates f) then properties f
      else zone_search lng lat fs)"

definition getZoneForPoint :: "real \<Rightarrow> real \<Rightarrow> zone_props" where
  "getZoneForPoint lng lat = zone_search lng lat features"

definition STADIUM_ITEMS :: "string list" where
  "STADIUM_ITEMS = [''Hot Dog'', ''Nachos'', ''Pretzel'', ''Popcorn'', ''Soda'', ''Water'',
                    ''Foam Finger'', ''Jersey'', ''Program'']"

definition ALCOHOL_ITEMS :: "string list" where
  "ALCOHOL_ITEMS = [''Beer'', ''Beer'', ''Hard Seltzer'', ''Mixed Drink'']"

subsection \<open>Entities\<close>

datatype ticket = General | Vip | Staff | Media | Vendor

datatype watchlist = WNone | WLow | WHigh

datatype alcohol_pattern = NormalPattern | Heavy

datatype status = Normal | Loitering | Rushing

datatype threat_level = LOW | MEDIUM | HIGH | CRITICAL

record history =
  priorIncidents :: int
  watchlistStatus :: watchlist
  alcoholPattern :: alcohol_pattern

record session =
  alcoholCount :: int
  zonesVisited :: "string option list"
  isWatched :: bool

record pos =
  longitude :: real
  latitude :: real

text \<open>An entity spreads a position (\<^verbatim>\<open>...pos\<close>) and adds its own fields.\<close>

record entity = pos +
  entity_id :: string
  entity_name :: string
  ticketType :: ticket
  target :: pos
  status :: status
  waitTicks :: int
  inventory :: "string list"
  history :: history
  session :: session
  threatScore :: int
  threatLevel :: threat_level
  threatFactors :: "string list"

subsection \<open>Threat scoring engine\<close>

text \<open>Decimal rendering of a number inside a template literal.\<close>

fun show_nat :: "nat \<Rightarrow> string" where
  "show_nat n =
     (if n < 10 then [''0123456789'' ! n]
      else show_nat (n div 10) @ [''0123456789'' ! (n mod 10)])"

declare show_nat.simps [simp del]

definition show_int :: "int \<Rightarrow> string" where
  "show_int i = (if i < 0 then CHR ''-'' # show_nat (nat (- i)) else show_nat (nat i))"

record threat =
  score :: int
  level :: threat_level
  factors :: "string list"

text \<open>The running pair of \<^verbatim>\<open>score\<close> and \<^verbatim>\<open>factors\<close>.\<close>

type_synonym tally = "int \<times> string list"

text \<open>\<^verbatim>\<open>score += n; factors.push(l)\<close>\<close>

definition add_factor :: "int \<Rightarrow> string \<Rightarrow> tally \<Rightarrow> tally" where
  "add_factor n l t = (fst t + n, snd t @ [l])"

text \<open>\<^verbatim>\<open>score += n\<close> alone.\<close>

definition add_score :: "int \<Rightarrow> tally \<Rightarrow> tally" where
  "add_score n t = (fst t + n, snd t)"

definition watchlist_factor :: "entity \<Rightarrow> tally \<Rightarrow> tally" where
  "watchlist_factor e t =
     (if watchlistStatus (history e) = WHigh then add_factor 35 ''HIGH WATCHLIST'' t
      else if watchlistStatus (history e) = WLow then add_factor 15 ''Low Watchlist'' t
      else t)"

definition incidents_factor :: "entity \<Rightarrow> tally \<Rightarrow> tally" where
  "incidents_factor e t =
     (if priorIncidents (history e) > 0
      then add_factor (priorIncidents (history e) * 12)
             (show_int (priorIncidents (history e)) @ '' Prior Incident(s)'') t
      else t)"

definition drinker_factor :: "entity \<Rightarrow> tally \<Rightarrow> tally" where
  "drinker_factor e t =
     (if alcoholPattern (history e) = Heavy then add_factor 10 ''Heavy Drinker History'' t
      else t)"

definition session_factor :: "entity \<Rightarrow> tally \<Rightarrow> tally" where
  "session_factor e t =
     (if alcoholCount (session e) \<ge> 6 then add_factor 30 ''Excessive Alcohol (6+)'' t
      else if alcoholCount (session e) \<ge> 4 then add_factor 18 ''High Alcohol (4+)'' t
      else if alcoholCount (session e) \<ge> 3 then add_score 8 t
      else t)"

definition zone_factor :: "entity \<Rightarrow> tally \<Rightarrow> tally" where
  "zone_factor e t =
     (let zone = getZoneForPoint (longitude e) (latitude e) in
      if zoneType zone = Critical \<and> ticketType e \<noteq> Staff
        then add_factor 45 ''CRITICAL ZONE VIOLATION'' t
      else if zoneType zone = Restricted \<and> \<not> (ticketType e \<in> set [Staff, Media])
        then add_factor 30 ''Restricted Zone Access'' t
      else if zoneType zone = VipZone \<and> ticketType e \<noteq> Vip \<and> ticketType e \<noteq> Staff
        then add_factor 20 ''VIP Zone - No Auth'' t
      else t)"

definition rushing_factor :: "entity \<Rightarrow> tally \<Rightarrow> tally" where
  "rushing_factor e t =
     (if status e = Rushing then add_factor 15 ''Rushing Behavior'' t else t)"

definition loitering_factor :: "entity \<Rightarrow> tally \<Rightarrow> tally" where
  "loitering_factor e t =
     (let zone = getZoneForPoint (longitude e) (latitude e) in
      if status e = Loitering \<and> zoneType zone \<noteq> Concourse
        then add_factor 10 ''Loitering'' t
      else t)"

definition watched_factor :: "entity \<Rightarrow> tally \<Rightarrow> tally" where
  "watched_factor e t =
     (if isWatched (session e) then add_factor 5 ''User Flagged'' t else t)"

text \<open>The statements of \<^verbatim>\<open>calculateThreatScore\<close> up to its \<^verbatim>\<open>return\<close>, in order.\<close>

definition tally_of :: "entity \<Rightarrow> tally" where
  "tally_of e =
     watched_factor e (loitering_factor e (rushing_factor e (zone_factor e
       (session_factor e (drinker_factor e (incidents_factor e (watchlist_factor e
          (0, []))))))))"

definition calculateThreatScore :: "entity \<Rightarrow> game_phase \<Rightarrow> threat" where
  "calculateThreatScore e gamePhase =
     (let t = tally_of e; sc = fst t in
      \<lparr>score = min 100 sc,
       level = (if sc \<ge> 70 then CRITICAL else if sc \<ge> 45 then HIGH
                else if sc \<ge> 25 then MEDIUM else LOW),
       factors = snd t\<rparr>)"

subsection \<open>Random draws\<close>

text \<open>
  A source of draws: element \<open>n\<close> is the value of the \<open>n\<close>-th next call of
  \<^verbatim>\<open>Math.random()\<close>, which by its contract lies in \<open>[0, 1)\<close>.
\<close>

type_synonym rng = "nat \<Rightarrow> real"

definition advance :: "nat \<Rightarrow> rng \<Rightarrow> rng" where
  "advance k g = (\<lambda>n. g (n + k))"

definition unit_draws :: "rng \<Rightarrow> bool" where
  "unit_draws g = (\<forall>n. 0 \<le> g n \<and> g n < 1)"

text \<open>
  \<^verbatim>\<open>xs[Math.floor(r * xs.length)]\<close>. An index out of range reads
  \<^verbatim>\<open>undefined\<close> in the source, which no draw of \<open>[0, 1)\<close> produces; the
  model returns the given default there.
\<close>

definition pick :: "'a \<Rightarrow> 'a list \<Rightarrow> real \<Rightarrow> 'a" where
  "pick d xs r =
     (let i = \<lfloor>r * real (length xs)\<rfloor>
      in if 0 \<le> i \<and> i < int (length xs) then xs ! nat i else d)"

subsection \<open>Entity generator\<close>

record bounds =
  minLng :: real
  maxLng :: real
  minLat :: real
  maxLat :: real

definition FIELD_BOUNDS :: bounds where
  "FIELD_BOUNDS = \<lparr>minLng = -86.1649, maxLng = -86.1623, minLat = 39.7593, maxLat = 39.7609\<rparr>"

definition isInRestrictedField :: "real \<Rightarrow> real \<Rightarrow> bool" where
  "isInRestrictedField lng lat =
     (lng > minLng FIELD_BOUNDS \<and> lng < maxLng FIELD_BOUNDS \<and>
      lat > minLat FIELD_BOUNDS \<and> lat < maxLat FIELD_BOUNDS)"

text \<open>Either branch of \<^verbatim>\<open>getRandomPos\<close> makes three draws, in this order.\<close>

definition getRandomPos :: "string option \<Rightarrow> rng \<Rightarrow> pos \<times> rng" where
  "getRandomPos zonePreference g =
     (if zonePreference = Some ''concourse'' then
        (let isEast = g 0 > 0.5 in
         (\<lparr>longitude = (if isEast then -86.1618 + g 1 * 0.0003 else -86.1654 + g 1 * 0.0003),
           latitude = 39.7592 + g 2 * 0.0018\<rparr>, advance 3 g))
      else
        (let section = g 0 in
         ((if section < 0.25 then
             \<lparr>longitude = -86.1652 + g 1 * 0.0030, latitude = 39.7610 + g 2 * 0.0004\<rparr>
           else if section < 0.5 then
             \<lparr>longitude = -86.1652 + g 1 * 0.0030, latitude = 39.7586 + g 2 * 0.0006\<rparr>
           else if section < 0.75 then
             \<lparr>longitude = -86.1621 + g 1 * 0.0006, latitude = 39.7594 + g 2 * 0.0014\<rparr>
           else
             \<lparr>longitude = -86.1656 + g 1 * 0.0006, latitude = 39.7594 + g 2 * 0.0014\<rparr>),
          advance 3 g)))"

definition FIRST_NAMES :: "string list" where
  "FIRST_NAMES = [''Mike'', ''John'', ''Sarah'', ''Emily'', ''David'', ''Chris'', ''Alex'', ''Sam'',
                  ''Jordan'', ''Taylor'', ''Pat'', ''Casey'', ''Morgan'', ''Drew'', ''Jamie'']"

definition LAST_INITIALS :: "string list" where
  "LAST_INITIALS = [''A'', ''B'', ''C'', ''D'', ''E'', ''F'', ''G'', ''H'', ''J'', ''K'', ''L'', ''M'',
                    ''N'', ''P'', ''R'', ''S'', ''T'', ''W'']"

definition TICKET_TYPES :: "ticket list" where
  "TICKET_TYPES = [General, General, General, General, General, Vip, Staff, Media, Vendor]"

text \<open>The body of the loop of \<^verbatim>\<open>generateEntities\<close> for index \<open>i\<close>.\<close>

definition generateEntity :: "nat \<Rightarrow> rng \<Rightarrow> entity \<times> rng" where
  "generateEntity i g =
     (let firstName = pick ''undefined'' FIRST_NAMES (g 0);
          lastInit = pick ''undefined'' LAST_INITIALS (g 1);
          tt = pick General TICKET_TYPES (g 2);
          spawnZone = (if tt = Vendor then Some ''concourse'' else None);
          (p, g1) = getRandomPos spawnZone (advance 3 g);
          isTroublesome = g1 0 < 0.08;
          isWatchlisted = g1 1 < 0.05;
          (tg, g2) = getRandomPos None (advance 2 g1);
          pri = (if isTroublesome then \<lfloor>g2 0 * 3\<rfloor> + 1 else 0);
          g3 = (if isTroublesome then advance 1 g2 else g2);
          wl = (if isWatchlisted then (if g3 0 > 0.5 then WHigh else WLow) else WNone);
          g4 = (if isWatchlisted then advance 1 g3 else g3);
          ap = (if g4 0 < 0.15 then Heavy else NormalPattern)
      in (\<lparr>longitude = longitude p, latitude = latitude p,
            entity_id = ''fan-'' @ show_int (1000 + int i),
            entity_name = firstName @ '' '' @ lastInit @ ''.'',
            ticketType = tt, target = tg, status = Normal, waitTicks = 0, inventory = [],
            history = \<lparr>priorIncidents = pri, watchlistStatus = wl, alcoholPattern = ap\<rparr>,
            session = \<lparr>alcoholCount = 0, zonesVisited = [], isWatched = False\<rparr>,
            threatScore = 0, threatLevel = LOW, threatFactors = []\<rparr>,
          advance 1 g4))"

fun generate_from :: "nat \<Rightarrow> nat \<Rightarrow> rng \<Rightarrow> entity list" where
  "generate_from i 0 g = []"
| "generate_from i (Suc k) g =
     (let (e, g1) = generateEntity i g in e # generate_from (Suc i) k g1)"

definition generateEntities :: "nat \<Rightarrow> rng \<Rightarrow> entity list" where
  "generateEntities count g = generate_from 0 count g"

subsection \<open>Predictions\<close>

record action_info =
  action :: string
  priority :: threat_level
  icon :: string

text \<open>A prediction copies the three fields of its action and adds its own. The
  display string \<^verbatim>\<open>time\<close> of the source is left out.\<close>

record pred = action_info +
  pred_id :: string
  timestamp :: int
  entityId :: string
  entityName :: string
  prediction :: string
  confidence :: int
  pred_factors :: "string list"

definition PREDICTION_ACTIONS :: "string \<Rightarrow> action_info option" where
  "PREDICTION_ACTIONS = map_of
    [(''ZONE_BREACH_IMMINENT'',
        \<lparr>action = ''Deploy security to perimeter'', priority = HIGH, icon = ''alert''\<rparr>),
     (''ALTERCATION_RISK'',
        \<lparr>action = ''Alert nearby staff for intervention'', priority = HIGH, icon = ''users''\<rparr>),
     (''FIELD_RUSH_VECTOR'',
        \<lparr>action = ''Position guards at field access points'', priority = CRITICAL, icon = ''alert''\<rparr>),
     (''INTOXICATION_MONITOR'',
        \<lparr>action = ''Flag for beverage service cutoff'', priority = MEDIUM, icon = ''beer''\<rparr>),
     (''BEHAVIORAL_PATTERN_MATCH'',
        \<lparr>action = ''Increase surveillance on subject'', priority = MEDIUM, icon = ''eye''\<rparr>),
     (''ANOMALY_DETECTED'',
        \<lparr>action = ''Continue monitoring, gather data'', priority = LOW, icon = ''scan''\<rparr>)]"

text \<open>The test \<^verbatim>\<open>prev.some(...)\<close>; \<open>now\<close> is the value of \<^verbatim>\<open>Date.now()\<close>, taken
  to be the same at each of its reads within one call.\<close>

definition isDuplicate :: "int \<Rightarrow> entity \<Rightarrow> string \<Rightarrow> pred list \<Rightarrow> bool" where
  "isDuplicate now e pr prev =
     list_ex (\<lambda>p. entityId p = entity_id e \<and> prediction p = pr \<and> now - timestamp p < 10000) prev"

definition newPred :: "int \<Rightarrow> entity \<Rightarrow> string \<Rightarrow> int \<Rightarrow> pred" where
  "newPred now e pr conf =
     (let actionInfo = (case PREDICTION_ACTIONS pr of
                          Some a \<Rightarrow> a
                        | None \<Rightarrow> \<lparr>action = ''Monitor situation'', priority = LOW, icon = ''activity''\<rparr>)
      in \<lparr>action = action actionInfo, priority = priority actionInfo, icon = icon actionInfo,
          pred_id = entity_id e @ ''-'' @ pr @ ''-'' @ show_int now,
          timestamp = now, entityId = entity_id e, entityName = entity_name e,
          prediction = pr, confidence = conf, pred_factors = threatFactors e\<rparr>)"

definition addPrediction :: "int \<Rightarrow> entity \<Rightarrow> string \<Rightarrow> int \<Rightarrow> pred list \<Rightarrow> pred list" where
  "addPrediction now e pr conf prev =
     (if isDuplicate now e pr prev then prev
      else take 5 (newPred now e pr conf # prev))"

definition dismissPrediction :: "string \<Rightarrow> pred list \<Rightarrow> pred list" where
  "dismissPrediction predId prev = filter (\<lambda>p. pred_id p \<noteq> predId) prev"

text \<open>The update that \<^verbatim>\<open>toggleWatchlist\<close> applies to the entity list; the copy
  of the selected entity kept for the detail panel is view state and left out.\<close>

definition toggleWatchlist :: "string \<Rightarrow> entity list \<Rightarrow> entity list" where
  "toggleWatchlist eid prev =
     map (\<lambda>e. if entity_id e = eid
               then e\<lparr>session := (session e)\<lparr>isWatched := \<not> isWatched (session e)\<rparr>\<rparr>
               else e) prev"

subsection \<open>Main simulation loop: one entity\<close>

text \<open>
  The callback of \<^verbatim>\<open>prevEntities.map\<close>. Its local variables \<^verbatim>\<open>longitude\<close>,
  \<^verbatim>\<open>latitude\<close>, \<^verbatim>\<open>target\<close>, \<^verbatim>\<open>inventory\<close>, \<^verbatim>\<open>waitTicks\<close>, \<^verbatim>\<open>status\<close>
  and \<^verbatim>\<open>session\<close> are carried in a working copy of the entity; the other
  fields of the copy stay those of the entity read at the start of the tick.
\<close>

definition isAuthorized :: "entity \<Rightarrow> bool" where
  "isAuthorized e = (ticketType e \<in> set [Staff, Media])"

text \<open>Inside the field and not authorized: a fresh position and a fresh target.\<close>

definition push_out :: "entity \<Rightarrow> rng \<Rightarrow> entity \<times> rng" where
  "push_out w g =
     (if isInRestrictedField (longitude w) (latitude w) \<and> \<not> isAuthorized w then
        (let (p, g1) = getRandomPos None g;
             (t, g2) = getRandomPos None g1
         in (w\<lparr>longitude := longitude p, latitude := latitude p, target := t\<rparr>, g2))
      else (w, g))"

text \<open>The target is never left inside the field for the unauthorized.\<close>

definition fix_target :: "entity \<Rightarrow> rng \<Rightarrow> entity \<times> rng" where
  "fix_target w g =
     (if isInRestrictedField (longitude (target w)) (latitude (target w)) \<and> \<not> isAuthorized w then
        (let (t, g1) = getRandomPos None g in (w\<lparr>target := t\<rparr>, g1))
      else (w, g))"

text \<open>The block under the comment \<^verbatim>\<open>// Movement\<close>.\<close>

definition move :: "game_phase \<Rightarrow> entity \<Rightarrow> rng \<Rightarrow> entity \<times> rng" where
  "move ph w g =
     (let dLon = longitude (target w) - longitude w;
          dLat = latitude (target w) - latitude w;
          dist = sqrt (dLon * dLon + dLat * dLat)
      in if dist < MOVEMENT_SPEED * 2 then
           (if ph = HALFTIME then
              (if g 0 > 0.5 then
                 (let (t, g1) = getRandomPos (Some ''concourse'') (advance 1 g) in (w\<lparr>target := t\<rparr>, g1))
               else
                 (let (t, g1) = getRandomPos None (advance 1 g) in (w\<lparr>target := t\<rparr>, g1)))
            else
              (let (t, g1) = getRandomPos None g in (w\<lparr>target := t\<rparr>, g1)))
         else
           (let speed = (if status w = Rushing then MOVEMENT_SPEED * 2 else MOVEMENT_SPEED);
                newLon = longitude w + (dLon / dist) * speed;
                newLat = latitude w + (dLat / dist) * speed
            in if \<not> isInRestrictedField newLon newLat \<or> isAuthorized w then
                 (let newZone = getZoneForPoint newLon newLat in
                  if zoneType newZone = VipZone \<and> ticketType w \<noteq> Vip \<and> \<not> isAuthorized w then
                    (let (t, g1) = getRandomPos None g in (w\<lparr>target := t\<rparr>, g1))
                  else (w\<lparr>longitude := newLon, latitude := newLat\<rparr>, g))
               else
                 (let (t, g1) = getRandomPos None g in (w\<lparr>target := t\<rparr>, g1))))"

text \<open>Zone tracking: the id of the zone of the final position joins the visited list.\<close>

definition track_zone :: "entity \<Rightarrow> entity" where
  "track_zone w =
     (let zone = getZoneForPoint (longitude w) (latitude w) in
      if \<not> (zone_id zone \<in> set (zonesVisited (session w))) then
        w\<lparr>session := (session w)\<lparr>zonesVisited := zonesVisited (session w) @ [zone_id zone]\<rparr>\<rparr>
      else w)"

text \<open>
  Concourse purchases. A drink is bought only below eight drinks, and the
  purchase is logged when the new count is at least 4 or is 1; any other item
  joins the inventory once, and one more draw then decides whether that
  purchase is logged. Each call of \<^verbatim>\<open>addLog\<close> makes one draw of its own.
\<close>

definition purchase :: "game_phase \<Rightarrow> entity \<Rightarrow> rng \<Rightarrow> entity \<times> rng" where
  "purchase ph w g =
     (let zone = getZoneForPoint (longitude w) (latitude w);
          purchaseChance = (if ph = HALFTIME then 0.88 else 0.96)
      in if zoneType zone = Concourse then
           (if g 0 > purchaseChance then
              (let isBeer = (if alcoholPattern (history w) = Heavy then g 1 > 0.3 else g 1 > 0.6) in
               if isBeer \<and> alcoholCount (session w) < 8 then
                 (let drink = pick ''undefined'' ALCOHOL_ITEMS (g 2);
                      count = alcoholCount (session w) + 1
                  in (w\<lparr>inventory := inventory w @ [drink],
                        session := (session w)\<lparr>alcoholCount := count\<rparr>\<rparr>,
                      if count \<ge> 4 then advance 4 g
                      else if count = 1 then advance 4 g
                      else advance 3 g))
               else
                 (let item = pick ''undefined'' STADIUM_ITEMS (g 2) in
                  if \<not> (item \<in> set (inventory w)) then
                    (w\<lparr>inventory := inventory w @ [item]\<rparr>,
                     if g 3 > 0.7 then advance 5 g else advance 4 g)
                  else (w, advance 3 g)))
            else (w, advance 1 g))
         else (w, g))"

text \<open>The zone-transition log: it draws only when the first two conjuncts of its
  condition hold, and a second time when the entry is written, which happens
  for a VIP ticket in a VIP zone and for anyone in a concourse. The session read
  here is the one already updated by the zone tracking.\<close>

definition transition_log :: "entity \<Rightarrow> rng \<Rightarrow> rng" where
  "transition_log w g =
     (let zone = getZoneForPoint (longitude w) (latitude w) in
      if zone_id zone \<noteq> None \<and> zone_id zone \<noteq> Some [] \<and>
         \<not> (zone_id zone \<in> set (zonesVisited (session w)))
      then
        (if g 0 > 0.85 then
           (if zoneType zone = VipZone \<and> ticketType w = Vip then advance 2 g
            else if zoneType zone = Concourse then advance 2 g
            else advance 1 g)
         else advance 1 g)
      else g)"

definition relapse :: "entity \<Rightarrow> rng \<Rightarrow> entity \<times> rng" where
  "relapse w g =
     (if g 0 > 0.995 then
        (w\<lparr>status := (if g 1 > 0.7 then Rushing else Normal)\<rparr>, advance 2 g)
      else (w, advance 1 g))"

text \<open>The prediction branch: the chosen pattern and its confidence, if any.\<close>

definition highRiskPreds :: "string list" where
  "highRiskPreds = [''ZONE_BREACH_IMMINENT'', ''ALTERCATION_RISK'', ''FIELD_RUSH_VECTOR'']"

definition choose_prediction :: "threat \<Rightarrow> entity \<Rightarrow> rng \<Rightarrow> (string \<times> int) option \<times> rng" where
  "choose_prediction th w g =
     (if score th \<ge> 40 then
        (if g 0 > 0.96 then
           (if score th \<ge> 60 then
              (Some (pick ''undefined'' highRiskPreds (g 1), \<lfloor>70 + g 2 * 25\<rfloor>), advance 3 g)
            else if alcoholCount (session w) \<ge> 3 then
              (Some (''INTOXICATION_MONITOR'', \<lfloor>50 + real_of_int (alcoholCount (session w)) * 8\<rfloor>),
               advance 1 g)
            else if priorIncidents (history w) > 0 then
              (Some (''BEHAVIORAL_PATTERN_MATCH'', \<lfloor>45 + g 1 * 30\<rfloor>), advance 2 g)
            else
              (Some (''ANOMALY_DETECTED'', \<lfloor>40 + g 1 * 25\<rfloor>), advance 2 g))
         else (None, advance 1 g))
      else (None, g))"

text \<open>What one entity contributes to a tick: its next record, the threat level it
  reports to \<^verbatim>\<open>maxThreat\<close> (none on the two early returns), and the call of
  \<^verbatim>\<open>addPrediction\<close> it makes, with \<^verbatim>\<open>tempEntity\<close> as its first argument.\<close>

record outcome =
  next_entity :: entity
  reported :: "threat_level option"
  request :: "(entity \<times> string \<times> int) option"

definition update_entity :: "game_phase \<Rightarrow> entity \<Rightarrow> rng \<Rightarrow> outcome \<times> rng" where
  "update_entity ph e g =
     (let (w1, g1) = push_out e g;
          (w2, g2) = fix_target w1 g1
      in if waitTicks w2 > 0 then
           (\<lparr>next_entity = w2\<lparr>waitTicks := waitTicks w2 - 1\<rparr>, reported = None, request = None\<rparr>, g2)
         else if g2 0 > 0.97 \<and> status w2 = Normal then
           (\<lparr>next_entity = w2\<lparr>status := Loitering, waitTicks := \<lfloor>g2 1 * 8\<rfloor> + 3\<rparr>,
              reported = None, request = None\<rparr>, advance 2 g2)
         else
           (let (w3, g3) = move ph w2 (advance 1 g2);
                w4 = track_zone w3;
                (w5, g5) = purchase ph w4 g3;
                g6 = transition_log w5 g5;
                (w6, g7) = relapse w5 g6;
                tempEntity = e\<lparr>longitude := longitude w6, latitude := latitude w6,
                                inventory := inventory w6, session := session w6,
                                status := status w6\<rparr>;
                th = calculateThreatScore tempEntity ph;
                (choice, g8) = choose_prediction th tempEntity g7
            in (\<lparr>next_entity = w6\<lparr>threatScore := score th, threatLevel := level th,
                                   threatFactors := factors th\<rparr>,
                  reported = Some (level th),
                  request = map_option (\<lambda>(pr, conf). (tempEntity, pr, conf)) choice\<rparr>, g8)))"

subsection \<open>Main simulation loop: the whole tick\<close>

definition raise_max :: "threat_level \<Rightarrow> threat_level \<Rightarrow> threat_level" where
  "raise_max lv maxThreat =
     (if lv = CRITICAL then CRITICAL
      else if lv = HIGH \<and> maxThreat \<noteq> CRITICAL then HIGH
      else maxThreat)"

fun update_all :: "game_phase \<Rightarrow> entity list \<Rightarrow> rng \<Rightarrow> outcome list \<times> rng" where
  "update_all ph [] g = ([], g)"
| "update_all ph (e # es) g =
     (let (out, g1) = update_entity ph e g;
          (outs, g2) = update_all ph es g1
      in (out # outs, g2))"

definition max_threat :: "outcome list \<Rightarrow> threat_level" where
  "max_threat outs =
     foldl (\<lambda>m out. case reported out of None \<Rightarrow> m | Some lv \<Rightarrow> raise_max lv m) LOW outs"

text \<open>The queued \<^verbatim>\<open>setPredictions\<close> updaters of a tick, applied in call order.\<close>

definition add_requests :: "int \<Rightarrow> outcome list \<Rightarrow> pred list \<Rightarrow> pred list" where
  "add_requests now outs prev =
     foldl (\<lambda>ps out. case request out of
                        None \<Rightarrow> ps
                      | Some (e, pr, conf) \<Rightarrow> addPrediction now e pr conf ps) prev outs"

record sim =
  entities :: "entity list"
  predictions :: "pred list"
  systemThreatLevel :: threat_level
  gamePhaseIndex :: nat
  phaseTick :: int

definition currentPhase :: "sim \<Rightarrow> phase_info" where
  "currentPhase s = GAME_PHASES ! gamePhaseIndex s"

text \<open>One firing of the interval: the phase timer, then every entity. The phase
  index stays below the length of \<^verbatim>\<open>GAME_PHASES\<close> because it only moves by
  the modulus.\<close>

definition tick :: "int \<Rightarrow> rng \<Rightarrow> sim \<Rightarrow> sim" where
  "tick now g s =
     (let cp = currentPhase s;
          nxt = phaseTick s + 1;
          (outs, g1) = update_all (phase cp) (entities s) g
      in s\<lparr>entities := map next_entity outs,
           predictions := add_requests now outs (predictions s),
           systemThreatLevel := max_threat outs,
           gamePhaseIndex := (if nxt \<ge> duration cp
                              then (gamePhaseIndex s + 1) mod length GAME_PHASES
                              else gamePhaseIndex s),
           phaseTick := (if nxt \<ge> duration cp then 0 else nxt)\<rparr>)"

text \<open>The clock and the two operator commands that change simulation state.\<close>

datatype command =
  Tick int rng
| ToggleWatchlist string
| DismissPrediction string

fun apply_command :: "sim \<Rightarrow> command \<Rightarrow> sim" where
  "apply_command s (Tick now g) = tick now g s"
| "apply_command s (ToggleWatchlist eid) = s\<lparr>entities := toggleWatchlist eid (entities s)\<rparr>"
| "apply_command s (DismissPrediction predId) =
     s\<lparr>predictions := dismissPrediction predId (predictions s)\<rparr>"

definition initial :: "entity list \<Rightarrow> sim" where
  "initial es = \<lparr>entities = es, predictions = [], systemThreatLevel = LOW,
                 gamePhaseIndex = 0, phaseTick = 0\<rparr>"

definition run :: "entity list \<Rightarrow> command list \<Rightarrow> sim" where
  "run es cmds = foldl apply_command (initial es) cmds"

subsection \<open>Specification-level notions\<close>

text \<open>The tier mapping as the specification words it, on the clamped value.\<close>

definition tier_of :: "int \<Rightarrow> threat_level" where
  "tier_of v = (if v \<ge> 70 then CRITICAL else if v \<ge> 45 then HIGH
                else if v \<ge> 25 then MEDIUM else LOW)"

text \<open>Severity order of the tiers and of the watchlist tiers.\<close>

definition level_rank :: "threat_level \<Rightarrow> nat" where
  "level_rank l = (case l of LOW \<Rightarrow> 0 | MEDIUM \<Rightarrow> 1 | HIGH \<Rightarrow> 2 | CRITICAL \<Rightarrow> 3)"

definition wl_rank :: "watchlist \<Rightarrow> nat" where
  "wl_rank w = (case w of WNone \<Rightarrow> 0 | WLow \<Rightarrow> 1 | WHigh \<Rightarrow> 2)"

text \<open>Every entity of a list is within the session cap of eight drinks.\<close>

definition capped :: "entity list \<Rightarrow> bool" where
  "capped es = list_all (\<lambda>e. alcoholCount (session e) \<le> 8) es"

text \<open>The live predictions of one (agent, pattern) pair.\<close>

definition for_pair :: "string \<Rightarrow> string \<Rightarrow> pred list \<Rightarrow> pred list" where
  "for_pair eid pr ps = filter (\<lambda>p. entityId p = eid \<and> prediction p = pr) ps"

subsection \<open>Sample entities\<close>

text \<open>A general-admission fan in the north seating with a clean record.\<close>

definition plain_fan :: entity where
  "plain_fan =
     \<lparr>longitude = -86.1640, latitude = 39.7612,
      entity_id = ''fan-1000'', entity_name = ''Sam A.'',
      ticketType = General, target = \<lparr>longitude = -86.1640, latitude = 39.7612\<rparr>,
      status = Normal, waitTicks = 0, inventory = [],
      history = \<lparr>priorIncidents = 0, watchlistStatus = WNone, alcoholPattern = NormalPattern\<rparr>,
      session = \<lparr>alcoholCount = 0, zonesVisited = [], isWatched = False\<rparr>,
      threatScore = 0, threatLevel = LOW, threatFactors = []\<rparr>"

text \<open>High watchlist, two prior incidents, standing inside the Team Tunnel polygon.\<close>

definition tunnel_fan :: entity where
  "tunnel_fan =
     plain_fan\<lparr>longitude := -86.1636, latitude := 39.7591,
               history := \<lparr>priorIncidents = 2, watchlistStatus = WHigh, alcoholPattern = NormalPattern\<rparr>\<rparr>"

text \<open>Three drinks this session and nothing else.\<close>

definition three_drinks_fan :: entity where
  "three_drinks_fan = plain_fan\<lparr>session := \<lparr>alcoholCount = 3, zonesVisited = [], isWatched = False\<rparr>\<rparr>"

text \<open>Two drinks this session and nothing else.\<close>

definition two_drinks_fan :: entity where
  "two_drinks_fan = plain_fan\<lparr>session := \<lparr>alcoholCount = 2, zonesVisited = [], isWatched = False\<rparr>\<rparr>"

text \<open>Contributions of 35, 36 and 30: an unclamped score of 101.\<close>

definition saturated_fan :: entity where
  "saturated_fan =
     plain_fan\<lparr>history := \<lparr>priorIncidents = 3, watchlistStatus = WHigh, alcoholPattern = NormalPattern\<rparr>,
               session := \<lparr>alcoholCount = 6, zonesVisited = [], isWatched = False\<rparr>\<rparr>"

text \<open>A heavy drinker at the session cap of eight drinks.\<close>

definition capped_drinker :: entity where
  "capped_drinker =
     plain_fan\<lparr>history := \<lparr>priorIncidents = 0, watchlistStatus = WNone, alcoholPattern = Heavy\<rparr>,
               session := \<lparr>alcoholCount = 8, zonesVisited = [Some ''bowl''], isWatched = False\<rparr>\<rparr>"

text \<open>A general-admission fan standing at midfield.\<close>

definition midfield_fan :: entity where
  "midfield_fan = plain_fan\<lparr>longitude := -86.1636, latitude := 39.7600\<rparr>"

subsection \<open>Sample prediction queues\<close>

text \<open>Three intoxication alerts for the same fan, issued at 0 s, 10 s and 15 s.\<close>

definition alerts_0 :: "pred list" where
  "alerts_0 = addPrediction 0 capped_drinker ''INTOXICATION_MONITOR'' 114 []"

definition alerts_1 :: "pred list" where
  "alerts_1 = addPrediction 10000 capped_drinker ''INTOXICATION_MONITOR'' 114 alerts_0"

definition alerts_2 :: "pred list" where
  "alerts_2 = addPrediction 15000 capped_drinker ''INTOXICATION_MONITOR'' 114 alerts_1"

text \<open>A full queue, newest first, its entries ten seconds apart.\<close>

definition full_queue :: "pred list" where
  "full_queue = map (\<lambda>t. newPred t capped_drinker ''INTOXICATION_MONITOR'' 114)
                    [40000, 30000, 20000, 10000, 0]"

section \<open>Properties of the geofence lookup\<close>

text \<open>Each of the three rectangles, as the ray-casting test decides it: closed on
  its south and west sides, open on its north and east sides.\<close>

lemma in_bowl:
  "isPointInPolygon (x, y) (coordinates bowl) =
     (39.7588 \<le> y \<and> y < 39.7615 \<and> -86.1655 \<le> x \<and> x < -86.1617)"
  by (auto simp: isPointInPolygon_def bowl_def intersect_def Let_def)

lemma in_field:
  "isPointInPolygon (x, y) (coordinates field) =
     (39.7594 \<le> y \<and> y < 39.7608 \<and> -86.1648 \<le> x \<and> x < -86.1624)"
  by (auto simp: isPointInPolygon_def field_def intersect_def Let_def)

lemma in_tunnel:
  "isPointInPolygon (x, y) (coordinates tunnel) =
     (39.7588 \<le> y \<and> y < 39.7594 \<and> -86.1638 \<le> x \<and> x < -86.1634)"
  by (auto simp: isPointInPolygon_def tunnel_def intersect_def Let_def)

lemma bowl_first:
  "isPointInPolygon (x, y) (coordinates bowl) \<Longrightarrow> getZoneForPoint x y = properties bowl"
  by (simp add: getZoneForPoint_def features_def)

lemma zoneType_features:
  "zoneType (properties bowl) = Public" "zoneType (properties field) = Restricted"
  "zoneType (properties vip_north) = VipZone" "zoneType (properties vip_south) = VipZone"
  "zoneType (properties tunnel) = Critical" "zoneType (properties concourse_e) = Concourse"
  "zoneType (properties concourse_w) = Concourse" "zoneType outside_zone = Outside"
  by (simp_all add: bowl_def field_def tunnel_def vip_north_def vip_south_def
        concourse_e_def concourse_w_def outside_zone_def)

lemma zone_never_restricted: "zoneType (getZoneForPoint x y) \<noteq> Restricted"
  using in_bowl[of x y] in_field[of x y]
  by (auto simp add: getZoneForPoint_def features_def zoneType_features)

lemma zone_never_critical: "zoneType (getZoneForPoint x y) \<noteq> Critical"
  using in_bowl[of x y] in_tunnel[of x y]
  by (auto simp add: getZoneForPoint_def features_def zoneType_features)

section \<open>Properties of the threat scoring engine\<close>

lemma fst_add_factor [simp]: "fst (add_factor n l t) = fst t + n"
  and snd_add_factor [simp]: "snd (add_factor n l t) = snd t @ [l]"
  and fst_add_score [simp]: "fst (add_score n t) = fst t + n"
  and snd_add_score [simp]: "snd (add_score n t) = snd t"
  by (simp_all add: add_factor_def add_score_def)

text \<open>Only the third branch of the zone block can ever be taken.\<close>

lemma zone_factor_vip_only:
  "zone_factor e t =
     (if zoneType (getZoneForPoint (longitude e) (latitude e)) = VipZone \<and>
         ticketType e \<noteq> Vip \<and> ticketType e \<noteq> Staff
      then add_factor 20 ''VIP Zone - No Auth'' t else t)"
  by (simp add: zone_factor_def Let_def zone_never_restricted zone_never_critical)

lemmas factor_defs = watchlist_factor_def incidents_factor_def drinker_factor_def
  session_factor_def zone_factor_vip_only rushing_factor_def loitering_factor_def
  watched_factor_def

text \<open>What each block of the scorer adds to the running score.\<close>

lemma fst_watchlist_factor:
  "fst (watchlist_factor e t) = fst t +
     (if watchlistStatus (history e) = WHigh then 35
      else if watchlistStatus (history e) = WLow then 15 else 0)"
  by (simp add: watchlist_factor_def)

lemma fst_incidents_factor:
  "fst (incidents_factor e t) = fst t +
     (if priorIncidents (history e) > 0 then priorIncidents (history e) * 12 else 0)"
  by (simp add: incidents_factor_def)

lemma fst_drinker_factor:
  "fst (drinker_factor e t) = fst t + (if alcoholPattern (history e) = Heavy then 10 else 0)"
  by (simp add: drinker_factor_def)

lemma fst_session_factor:
  "fst (session_factor e t) = fst t +
     (if alcoholCount (session e) \<ge> 6 then 30 else if alcoholCount (session e) \<ge> 4 then 18
      else if alcoholCount (session e) \<ge> 3 then 8 else 0)"
  by (simp add: session_factor_def)

lemma fst_zone_factor:
  "fst (zone_factor e t) = fst t +
     (if zoneType (getZoneForPoint (longitude e) (latitude e)) = VipZone \<and>
         ticketType e \<noteq> Vip \<and> ticketType e \<noteq> Staff then 20 else 0)"
  by (simp add: zone_factor_vip_only)

lemma fst_rushing_factor:
  "fst (rushing_factor e t) = fst t + (if status e = Rushing then 15 else 0)"
  by (simp add: rushing_factor_def)

lemma fst_loitering_factor:
  "fst (loitering_factor e t) = fst t +
     (if status e = Loitering \<and>
         zoneType (getZoneForPoint (longitude e) (latitude e)) \<noteq> Concourse then 10 else 0)"
  by (simp add: loitering_factor_def Let_def)

lemma fst_watched_factor:
  "fst (watched_factor e t) = fst t + (if isWatched (session e) then 5 else 0)"
  by (simp add: watched_factor_def)

lemmas fst_factors = fst_watchlist_factor fst_incidents_factor fst_drinker_factor
  fst_session_factor fst_zone_factor fst_rushing_factor fst_loitering_factor fst_watched_factor

text \<open>The unclamped score is the sum of eight independent contributions.\<close>

lemma raw_sum:
  "fst (tally_of e) =
     (if watchlistStatus (history e) = WHigh then 35
      else if watchlistStatus (history e) = WLow then 15 else 0)
   + (if priorIncidents (history e) > 0 then priorIncidents (history e) * 12 else 0)
   + (if alcoholPattern (history e) = Heavy then 10 else 0)
   + (if alcoholCount (session e) \<ge> 6 then 30 else if alcoholCount (session e) \<ge> 4 then 18
      else if alcoholCount (session e) \<ge> 3 then 8 else 0)
   + (if zoneType (getZoneForPoint (longitude e) (latitude e)) = VipZone \<and>
         ticketType e \<noteq> Vip \<and> ticketType e \<noteq> Staff then 20 else 0)
   + (if status e = Rushing then 15 else 0)
   + (if status e = Loitering \<and>
         zoneType (getZoneForPoint (longitude e) (latitude e)) \<noteq> Concourse then 10 else 0)
   + (if isWatched (session e) then 5 else 0)"
  by (simp only: tally_of_def fst_factors fst_conv add_0)

lemma raw_nonneg: "0 \<le> fst (tally_of e)"
  by (simp add: tally_of_def fst_factors)

lemma score_mono:
  "fst (tally_of e) \<le> fst (tally_of e') \<Longrightarrow>
     score (calculateThreatScore e ph) \<le> score (calculateThreatScore e' ph)"
  by (simp add: calculateThreatScore_def Let_def)

lemma score_eq: "score (calculateThreatScore e ph) = min 100 (fst (tally_of e))"
  by (simp add: calculateThreatScore_def Let_def)

lemma level_eq: "level (calculateThreatScore e ph) = tier_of (fst (tally_of e))"
  by (simp add: calculateThreatScore_def Let_def tier_of_def)

lemma factors_eq: "factors (calculateThreatScore e ph) = snd (tally_of e)"
  by (simp add: calculateThreatScore_def Let_def)

lemma show_int_2: "show_int 2 = ''2''"
  by (simp add: show_int_def show_nat.simps)

text \<open>The label of the prior-incident factor ends in a closing parenthesis.\<close>

lemma incident_label_differs:
  assumes "last l \<noteq> CHR '')''"
  shows "show_int n @ '' Prior Incident(s)'' \<noteq> l"
proof
  assume "show_int n @ '' Prior Incident(s)'' = l"
  then have "last l = last (show_int n @ '' Prior Incident(s)'')" by simp
  also have "\<dots> = CHR '')''" by simp
  finally show False using assms by simp
qed

lemma zone_labels_absent:
  assumes "l = ''CRITICAL ZONE VIOLATION'' \<or> l = ''Restricted Zone Access''"
  shows "l \<notin> set (snd (tally_of e))"
proof -
  have ll: "last l \<noteq> CHR '')''" using assms by auto
  have neq: "l \<noteq> ''HIGH WATCHLIST''" "l \<noteq> ''Low Watchlist''" "l \<noteq> ''Heavy Drinker History''"
     "l \<noteq> ''Excessive Alcohol (6+)''" "l \<noteq> ''High Alcohol (4+)''" "l \<noteq> ''VIP Zone - No Auth''"
     "l \<noteq> ''Rushing Behavior''" "l \<noteq> ''Loitering''" "l \<noteq> ''User Flagged''"
    using assms by auto
  have inc: "show_int n @ '' Prior Incident(s)'' \<noteq> l" for n
    using incident_label_differs[OF ll] .
  show ?thesis
    using neq inc[of "priorIncidents (history e)"]
    by (simp add: tally_of_def factor_defs Let_def)
qed

subsection \<open>The sample entities, scored\<close>

lemma plain_fan_zone:
  "getZoneForPoint (longitude plain_fan) (latitude plain_fan) = properties bowl"
  by (rule bowl_first) (simp add: in_bowl plain_fan_def)

lemma plain_fan_fields:
  "history plain_fan = \<lparr>priorIncidents = 0, watchlistStatus = WNone, alcoholPattern = NormalPattern\<rparr>"
  "session plain_fan = \<lparr>alcoholCount = 0, zonesVisited = [], isWatched = False\<rparr>"
  "ticketType plain_fan = General" "status plain_fan = Normal"
  by (simp_all add: plain_fan_def)

lemma tunnel_fan_zone:
  "getZoneForPoint (longitude tunnel_fan) (latitude tunnel_fan) = properties bowl"
  by (rule bowl_first) (simp add: in_bowl tunnel_fan_def)

lemma tunnel_fan_fields:
  "history tunnel_fan = \<lparr>priorIncidents = 2, watchlistStatus = WHigh, alcoholPattern = NormalPattern\<rparr>"
  "session tunnel_fan = \<lparr>alcoholCount = 0, zonesVisited = [], isWatched = False\<rparr>"
  "ticketType tunnel_fan = General" "status tunnel_fan = Normal"
  by (simp_all add: tunnel_fan_def plain_fan_def)

lemma tally_tunnel_fan:
  "tally_of tunnel_fan = (59, [''HIGH WATCHLIST'', ''2 Prior Incident(s)''])"
  by (simp add: tally_of_def factor_defs tunnel_fan_fields tunnel_fan_zone zoneType_features
        show_int_2 add_factor_def)

lemma three_drinks_fan_zone:
  "getZoneForPoint (longitude three_drinks_fan) (latitude three_drinks_fan) = properties bowl"
  by (rule bowl_first) (simp add: in_bowl three_drinks_fan_def plain_fan_def)

lemma three_drinks_fan_fields:
  "history three_drinks_fan = \<lparr>priorIncidents = 0, watchlistStatus = WNone, alcoholPattern = NormalPattern\<rparr>"
  "session three_drinks_fan = \<lparr>alcoholCount = 3, zonesVisited = [], isWatched = False\<rparr>"
  "ticketType three_drinks_fan = General" "status three_drinks_fan = Normal"
  by (simp_all add: three_drinks_fan_def plain_fan_def)

lemma tally_three_drinks_fan: "tally_of three_drinks_fan = (8, [])"
  by (simp add: tally_of_def factor_defs three_drinks_fan_fields three_drinks_fan_zone
        zoneType_features add_score_def)

lemma saturated_fan_zone:
  "getZoneForPoint (longitude saturated_fan) (latitude saturated_fan) = properties bowl"
  by (rule bowl_first) (simp add: in_bowl saturated_fan_def plain_fan_def)

lemma saturated_fan_fields:
  "history saturated_fan = \<lparr>priorIncidents = 3, watchlistStatus = WHigh, alcoholPattern = NormalPattern\<rparr>"
  "session saturated_fan = \<lparr>alcoholCount = 6, zonesVisited = [], isWatched = False\<rparr>"
  "ticketType saturated_fan = General" "status saturated_fan = Normal"
  by (simp_all add: saturated_fan_def plain_fan_def)

lemma raw_saturated_fan: "fst (tally_of saturated_fan) = 101"
  by (simp add: raw_sum saturated_fan_fields saturated_fan_zone zoneType_features)

lemma raw_plain_fan: "fst (tally_of plain_fan) = 0"
  by (simp add: raw_sum plain_fan_fields plain_fan_zone zoneType_features)

lemma mono_alcoholCount:
  "alcoholCount (session e) \<le> n \<Longrightarrow>
     fst (tally_of e) \<le> fst (tally_of (e\<lparr>session := (session e)\<lparr>alcoholCount := n\<rparr>\<rparr>))"
  by (simp add: raw_sum)

lemma mono_priorIncidents:
  "priorIncidents (history e) \<le> k \<Longrightarrow>
     fst (tally_of e) \<le> fst (tally_of (e\<lparr>history := (history e)\<lparr>priorIncidents := k\<rparr>\<rparr>))"
  by (simp add: raw_sum)

lemma mono_watchlistStatus:
  "wl_rank (watchlistStatus (history e)) \<le> wl_rank w \<Longrightarrow>
     fst (tally_of e) \<le> fst (tally_of (e\<lparr>history := (history e)\<lparr>watchlistStatus := w\<rparr>\<rparr>))"
  by (cases w; cases "watchlistStatus (history e)"; simp add: raw_sum wl_rank_def)

lemma mono_isWatched:
  "fst (tally_of (e\<lparr>session := (session e)\<lparr>isWatched := False\<rparr>\<rparr>))
     \<le> fst (tally_of (e\<lparr>session := (session e)\<lparr>isWatched := True\<rparr>\<rparr>))"
  by (simp add: raw_sum)

lemma mono_alcoholPattern:
  "fst (tally_of (e\<lparr>history := (history e)\<lparr>alcoholPattern := NormalPattern\<rparr>\<rparr>))
     \<le> fst (tally_of (e\<lparr>history := (history e)\<lparr>alcoholPattern := Heavy\<rparr>\<rparr>))"
  by (simp add: raw_sum)

lemma mono_status:
  "fst (tally_of (e\<lparr>status := Normal\<rparr>)) \<le> fst (tally_of (e\<lparr>status := st\<rparr>))"
  by (simp add: raw_sum)

lemma mono_vip_zone:
  "zoneType (getZoneForPoint x' y') = VipZone \<Longrightarrow>
     fst (tally_of (e\<lparr>longitude := x, latitude := y\<rparr>))
       \<le> fst (tally_of (e\<lparr>longitude := x', latitude := y'\<rparr>))"
  by (simp add: raw_sum)

lemma vip_strip_zone: "zoneType (getZoneForPoint (-86.1640) 39.75875) = VipZone"
proof -
  have "\<not> isPointInPolygon (-86.1640, 39.75875) (coordinates bowl)"
    by (simp add: in_bowl)
  moreover have "\<not> isPointInPolygon (-86.1640, 39.75875) (coordinates field)"
    by (simp add: in_field)
  moreover have "\<not> isPointInPolygon (-86.1640, 39.75875) (coordinates vip_north)"
    by (simp add: isPointInPolygon_def vip_north_def intersect_def)
  moreover have "isPointInPolygon (-86.1640, 39.75875) (coordinates vip_south)"
    by (simp add: isPointInPolygon_def vip_south_def intersect_def)
  ultimately show ?thesis
    by (simp add: getZoneForPoint_def features_def zoneType_features)
qed

text \<open>The operator flag is read by the last block of the scorer only.\<close>

lemma flag_ignored:
  "watchlist_factor (e\<lparr>session := (session e)\<lparr>isWatched := b\<rparr>\<rparr>) t = watchlist_factor e t"
  "incidents_factor (e\<lparr>session := (session e)\<lparr>isWatched := b\<rparr>\<rparr>) t = incidents_factor e t"
  "drinker_factor (e\<lparr>session := (session e)\<lparr>isWatched := b\<rparr>\<rparr>) t = drinker_factor e t"
  "session_factor (e\<lparr>session := (session e)\<lparr>isWatched := b\<rparr>\<rparr>) t = session_factor e t"
  "zone_factor (e\<lparr>session := (session e)\<lparr>isWatched := b\<rparr>\<rparr>) t = zone_factor e t"
  "rushing_factor (e\<lparr>session := (session e)\<lparr>isWatched := b\<rparr>\<rparr>) t = rushing_factor e t"
  "loitering_factor (e\<lparr>session := (session e)\<lparr>isWatched := b\<rparr>\<rparr>) t = loitering_factor e t"
  by (simp_all add: watchlist_factor_def incidents_factor_def drinker_factor_def
        session_factor_def zone_factor_def rushing_factor_def loitering_factor_def Let_def)

lemma tally_flagged:
  assumes "\<not> isWatched (session e)"
  shows "tally_of (e\<lparr>session := (session e)\<lparr>isWatched := True\<rparr>\<rparr>) =
           (fst (tally_of e) + 5, snd (tally_of e) @ [''User Flagged''])"
  using assms by (simp add: tally_of_def flag_ignored watched_factor_def add_factor_def)

lemma toggle_single:
  "toggleWatchlist (entity_id e) [e] =
     [e\<lparr>session := (session e)\<lparr>isWatched := \<not> isWatched (session e)\<rparr>\<rparr>]"
  by (simp add: toggleWatchlist_def)

lemma toggle_single_on:
  "\<not> isWatched (session e) \<Longrightarrow>
     hd (toggleWatchlist (entity_id e) [e]) = e\<lparr>session := (session e)\<lparr>isWatched := True\<rparr>\<rparr>"
  by (simp add: toggle_single)

subsection \<open>Claims about the scorer\<close>

text \<open>
  Claim C1. The specification expects an agent with high watchlist, two prior
  incidents and a general ticket, placed inside the Team Tunnel polygon, to score
  100 with tier CRITICAL and the factor CRITICAL ZONE VIOLATION. The code returns
  59, HIGH and only the two history factors for such an agent: the lookup
  resolves the position to the Stadium Bowl.
\<close>

theorem tunnel_fan_scored_as_public:
  "isPointInPolygon (longitude tunnel_fan, latitude tunnel_fan) (coordinates tunnel)
   \<and> watchlistStatus (history tunnel_fan) = WHigh
   \<and> priorIncidents (history tunnel_fan) = 2
   \<and> ticketType tunnel_fan = General
   \<and> calculateThreatScore tunnel_fan Q1 =
       \<lparr>score = 59, level = HIGH, factors = [''HIGH WATCHLIST'', ''2 Prior Incident(s)'']\<rparr>"
proof -
  have "isPointInPolygon (longitude tunnel_fan, latitude tunnel_fan) (coordinates tunnel)"
    by (simp add: in_tunnel tunnel_fan_def)
  moreover have "calculateThreatScore tunnel_fan Q1 =
       \<lparr>score = 59, level = HIGH, factors = [''HIGH WATCHLIST'', ''2 Prior Incident(s)'']\<rparr>"
    by (simp add: calculateThreatScore_def tally_tunnel_fan)
  ultimately show ?thesis by (simp add: tunnel_fan_fields)
qed

text \<open>
  Claim C2. Every point inside the Field Level polygon or the Team Tunnel
  polygon, whether by strict coordinate bounds or by the ray-casting test of the
  code, is resolved to the Stadium Bowl, a public zone, because the bowl comes
  first in the feature list and contains both. Hence no position is ever
  resolved to a restricted or critical zone, the zone block of the scorer can
  only take its VIP branch, and the two zone-violation labels never occur among
  the factors.
\<close>

theorem bowl_shadows_field_and_tunnel:
  "(((-86.1648 < lng \<and> lng < -86.1624 \<and> 39.7594 < lat \<and> lat < 39.7608)
      \<or> isPointInPolygon (lng, lat) (coordinates field)
      \<or> (-86.1638 < lng \<and> lng < -86.1634 \<and> 39.7588 < lat \<and> lat < 39.7594)
      \<or> isPointInPolygon (lng, lat) (coordinates tunnel))
     \<longrightarrow> getZoneForPoint lng lat = properties bowl)
   \<and> hd features = bowl
   \<and> zoneType (properties bowl) = Public
   \<and> zoneType (getZoneForPoint lng lat) \<noteq> Restricted
   \<and> zoneType (getZoneForPoint lng lat) \<noteq> Critical
   \<and> zone_factor e t =
       (if zoneType (getZoneForPoint (longitude e) (latitude e)) = VipZone \<and>
           ticketType e \<noteq> Vip \<and> ticketType e \<noteq> Staff
        then add_factor 20 ''VIP Zone - No Auth'' t else t)
   \<and> ''CRITICAL ZONE VIOLATION'' \<notin> set (factors (calculateThreatScore e ph))
   \<and> ''Restricted Zone Access'' \<notin> set (factors (calculateThreatScore e ph))"
proof -
  have "getZoneForPoint lng lat = properties bowl"
    if "(-86.1648 < lng \<and> lng < -86.1624 \<and> 39.7594 < lat \<and> lat < 39.7608)
      \<or> isPointInPolygon (lng, lat) (coordinates field)
      \<or> (-86.1638 < lng \<and> lng < -86.1634 \<and> 39.7588 < lat \<and> lat < 39.7594)
      \<or> isPointInPolygon (lng, lat) (coordinates tunnel)"
  proof (rule bowl_first)
    show "isPointInPolygon (lng, lat) (coordinates bowl)"
      using that unfolding in_bowl in_field in_tunnel by linarith
  qed
  moreover have "hd features = bowl" by (simp add: features_def)
  moreover have "''CRITICAL ZONE VIOLATION'' \<notin> set (factors (calculateThreatScore e ph))"
    using zone_labels_absent[of "''CRITICAL ZONE VIOLATION''" e] by (simp only: factors_eq simp_thms)
  moreover have "''Restricted Zone Access'' \<notin> set (factors (calculateThreatScore e ph))"
    using zone_labels_absent[of "''Restricted Zone Access''" e] by (simp only: factors_eq simp_thms)
  ultimately show ?thesis
    using zone_never_restricted[of lng lat] zone_never_critical[of lng lat]
      zone_factor_vip_only[of e t] zoneType_features(1)
    by blast
qed

theorem bowl_shadows_field_and_tunnel_witness:
  "isPointInPolygon (-86.1636, 39.7591) (coordinates tunnel)
   \<and> getZoneForPoint (-86.1636) 39.7591 = properties bowl
   \<and> isPointInPolygon (-86.1636, 39.7600) (coordinates field)
   \<and> getZoneForPoint (-86.1636) 39.7600 = properties bowl"
  using bowl_shadows_field_and_tunnel[of "-86.1636" "39.7591"]
    bowl_shadows_field_and_tunnel[of "-86.1636" "39.7600"]
  by (simp add: in_tunnel in_field)

text \<open>
  Claim C6. The specification asks that every contribution to the score append
  a factor label, the session tier of three drinks included. In the code the
  branch for three drinks adds 8 and appends nothing, unlike the branches for
  four and for six drinks: a fan with three drinks and nothing else scores 8
  with an empty factor list.
\<close>

theorem three_drinks_scored_without_label:
  "alcoholCount (session three_drinks_fan) = 3
   \<and> calculateThreatScore three_drinks_fan Q1 = \<lparr>score = 8, level = LOW, factors = []\<rparr>
   \<and> calculateThreatScore plain_fan Q1 = \<lparr>score = 0, level = LOW, factors = []\<rparr>"
proof -
  have "tally_of plain_fan = (0, [])"
    by (simp add: tally_of_def factor_defs plain_fan_fields plain_fan_zone zoneType_features)
  then show ?thesis
    by (simp add: calculateThreatScore_def tally_three_drinks_fan three_drinks_fan_fields)
qed

text \<open>
  Claim C7. The returned tier is the step function of the returned (clamped)
  score with thresholds 70, 45 and 25; this step function is non-decreasing in
  the severity order LOW, MEDIUM, HIGH, CRITICAL; and the returned score lies
  between 0 and 100.
\<close>

theorem tier_is_step_function_of_clamped_score:
  "level (calculateThreatScore e ph) =
     (if score (calculateThreatScore e ph) \<ge> 70 then CRITICAL
      else if score (calculateThreatScore e ph) \<ge> 45 then HIGH
      else if score (calculateThreatScore e ph) \<ge> 25 then MEDIUM else LOW)
   \<and> level (calculateThreatScore e ph) = tier_of (score (calculateThreatScore e ph))
   \<and> 0 \<le> score (calculateThreatScore e ph)
   \<and> score (calculateThreatScore e ph) \<le> 100
   \<and> (v \<le> v' \<longrightarrow> level_rank (tier_of v) \<le> level_rank (tier_of v'))
   \<and> (score (calculateThreatScore e ph) \<le> score (calculateThreatScore e' ph') \<longrightarrow>
        level_rank (level (calculateThreatScore e ph))
          \<le> level_rank (level (calculateThreatScore e' ph')))"
proof -
  have mono: "level_rank (tier_of a) \<le> level_rank (tier_of b)" if "a \<le> b" for a b
    using that by (simp add: tier_of_def level_rank_def)
  have lv: "level (calculateThreatScore x p) = tier_of (score (calculateThreatScore x p))" for x p
    by (simp add: calculateThreatScore_def Let_def tier_of_def)
  have "0 \<le> score (calculateThreatScore e ph)"
    using raw_nonneg[of e] by (simp add: score_eq)
  moreover have "score (calculateThreatScore e ph) \<le> 100"
    by (simp add: score_eq)
  moreover have "level (calculateThreatScore e ph) =
     (if score (calculateThreatScore e ph) \<ge> 70 then CRITICAL
      else if score (calculateThreatScore e ph) \<ge> 45 then HIGH
      else if score (calculateThreatScore e ph) \<ge> 25 then MEDIUM else LOW)"
    using lv[of e ph] by (simp only: tier_of_def)
  ultimately show ?thesis
    using mono[of v v'] mono[of "score (calculateThreatScore e ph)" "score (calculateThreatScore e' ph')"]
      lv[of e ph] lv[of e' ph']
    by simp
qed

theorem tier_is_step_function_of_clamped_score_witness:
  "score (calculateThreatScore tunnel_fan Q1) \<le> score (calculateThreatScore saturated_fan Q2)
   \<and> level_rank (tier_of 30) \<le> level_rank (tier_of 80)
   \<and> level_rank (level (calculateThreatScore tunnel_fan Q1))
        \<le> level_rank (level (calculateThreatScore saturated_fan Q2))"
proof -
  have h: "score (calculateThreatScore tunnel_fan Q1) \<le> score (calculateThreatScore saturated_fan Q2)"
    by (simp add: score_eq tally_tunnel_fan raw_saturated_fan)
  have k: "(30::int) \<le> 80" by simp
  show ?thesis
    using h k tier_is_step_function_of_clamped_score[of tunnel_fan Q1 30 80 saturated_fan Q2]
    by blast
qed

text \<open>
  Claim C8. With every other field and the phase fixed, the returned score does
  not decrease when the session drink count is raised, when the prior-incident
  count is raised, when the watchlist tier rises in the order none, low, high,
  when the operator flag goes from off to on, when the alcohol history goes
  from normal to heavy, when the behaviour leaves normal, or when the agent is
  placed at a point of a VIP zone instead of any other point.
\<close>

theorem score_monotone:
  "(alcoholCount (session e) \<le> n \<longrightarrow>
      score (calculateThreatScore e ph)
        \<le> score (calculateThreatScore (e\<lparr>session := (session e)\<lparr>alcoholCount := n\<rparr>\<rparr>) ph))
   \<and> (priorIncidents (history e) \<le> k \<longrightarrow>
      score (calculateThreatScore e ph)
        \<le> score (calculateThreatScore (e\<lparr>history := (history e)\<lparr>priorIncidents := k\<rparr>\<rparr>) ph))
   \<and> (wl_rank (watchlistStatus (history e)) \<le> wl_rank w \<longrightarrow>
      score (calculateThreatScore e ph)
        \<le> score (calculateThreatScore (e\<lparr>history := (history e)\<lparr>watchlistStatus := w\<rparr>\<rparr>) ph))
   \<and> score (calculateThreatScore (e\<lparr>session := (session e)\<lparr>isWatched := False\<rparr>\<rparr>) ph)
        \<le> score (calculateThreatScore (e\<lparr>session := (session e)\<lparr>isWatched := True\<rparr>\<rparr>) ph)
   \<and> score (calculateThreatScore (e\<lparr>history := (history e)\<lparr>alcoholPattern := NormalPattern\<rparr>\<rparr>) ph)
        \<le> score (calculateThreatScore (e\<lparr>history := (history e)\<lparr>alcoholPattern := Heavy\<rparr>\<rparr>) ph)
   \<and> score (calculateThreatScore (e\<lparr>status := Normal\<rparr>) ph)
        \<le> score (calculateThreatScore (e\<lparr>status := st\<rparr>) ph)
   \<and> (zoneType (getZoneForPoint x' y') = VipZone \<longrightarrow>
      score (calculateThreatScore (e\<lparr>longitude := x, latitude := y\<rparr>) ph)
        \<le> score (calculateThreatScore (e\<lparr>longitude := x', latitude := y'\<rparr>) ph))"
proof (intro conjI impI)
  assume "alcoholCount (session e) \<le> n"
  then show "score (calculateThreatScore e ph)
        \<le> score (calculateThreatScore (e\<lparr>session := (session e)\<lparr>alcoholCount := n\<rparr>\<rparr>) ph)"
    by (intro score_mono mono_alcoholCount)
next
  assume "priorIncidents (history e) \<le> k"
  then show "score (calculateThreatScore e ph)
        \<le> score (calculateThreatScore (e\<lparr>history := (history e)\<lparr>priorIncidents := k\<rparr>\<rparr>) ph)"
    by (intro score_mono mono_priorIncidents)
next
  assume "wl_rank (watchlistStatus (history e)) \<le> wl_rank w"
  then show "score (calculateThreatScore e ph)
        \<le> score (calculateThreatScore (e\<lparr>history := (history e)\<lparr>watchlistStatus := w\<rparr>\<rparr>) ph)"
    by (intro score_mono mono_watchlistStatus)
next
  show "score (calculateThreatScore (e\<lparr>session := (session e)\<lparr>isWatched := False\<rparr>\<rparr>) ph)
        \<le> score (calculateThreatScore (e\<lparr>session := (session e)\<lparr>isWatched := True\<rparr>\<rparr>) ph)"
    by (intro score_mono mono_isWatched)
next
  show "score (calculateThreatScore (e\<lparr>history := (history e)\<lparr>alcoholPattern := NormalPattern\<rparr>\<rparr>) ph)
        \<le> score (calculateThreatScore (e\<lparr>history := (history e)\<lparr>alcoholPattern := Heavy\<rparr>\<rparr>) ph)"
    by (intro score_mono mono_alcoholPattern)
next
  show "score (calculateThreatScore (e\<lparr>status := Normal\<rparr>) ph)
        \<le> score (calculateThreatScore (e\<lparr>status := st\<rparr>) ph)"
    by (intro score_mono mono_status)
next
  assume "zoneType (getZoneForPoint x' y') = VipZone"
  then show "score (calculateThreatScore (e\<lparr>longitude := x, latitude := y\<rparr>) ph)
        \<le> score (calculateThreatScore (e\<lparr>longitude := x', latitude := y'\<rparr>) ph)"
    by (intro score_mono mono_vip_zone)
qed

theorem score_monotone_witness:
  "alcoholCount (session two_drinks_fan) = 2
   \<and> score (calculateThreatScore two_drinks_fan Q1)
        \<le> score (calculateThreatScore
              (two_drinks_fan\<lparr>session := (session two_drinks_fan)\<lparr>alcoholCount := 4\<rparr>\<rparr>) Q1)
   \<and> score (calculateThreatScore two_drinks_fan Q1)
        \<le> score (calculateThreatScore
              (two_drinks_fan\<lparr>history := (history two_drinks_fan)\<lparr>priorIncidents := 1\<rparr>\<rparr>) Q1)
   \<and> score (calculateThreatScore two_drinks_fan Q1)
        \<le> score (calculateThreatScore
              (two_drinks_fan\<lparr>history := (history two_drinks_fan)\<lparr>watchlistStatus := WLow\<rparr>\<rparr>) Q1)
   \<and> zoneType (getZoneForPoint (-86.1640) 39.75875) = VipZone
   \<and> score (calculateThreatScore (two_drinks_fan\<lparr>longitude := -86.1640, latitude := 39.7612\<rparr>) Q1)
        \<le> score (calculateThreatScore
              (two_drinks_fan\<lparr>longitude := -86.1640, latitude := 39.75875\<rparr>) Q1)"
proof -
  have a: "alcoholCount (session two_drinks_fan) = 2"
    and b: "alcoholCount (session two_drinks_fan) \<le> 4"
    and c: "priorIncidents (history two_drinks_fan) \<le> 1"
    and d: "wl_rank (watchlistStatus (history two_drinks_fan)) \<le> wl_rank WLow"
    by (simp_all add: two_drinks_fan_def plain_fan_def wl_rank_def)
  show ?thesis
    using a b c d vip_strip_zone
      score_monotone[where e = two_drinks_fan and n = 4 and ph = Q1 and k = 1 and w = WLow
        and st = Normal and x' = "-86.1640" and y' = "39.75875" and x = "-86.1640" and y = "39.7612"]
    by blast
qed

text \<open>
  Claim C10, as amended. Toggling the operator flag of an unflagged agent and
  re-scoring it yields the smaller of 100 and the earlier score plus 5, hence
  exactly 5 more whenever the earlier score is at most 95; the factor list is
  the earlier one followed by the entry User Flagged. Toggling changes nothing
  in any entity but the flag, which it inverts for the entities with the given
  id and leaves alone for the others.
\<close>

theorem toggle_adds_flag_contribution:
  assumes "\<not> isWatched (session e)"
  shows
  "score (calculateThreatScore (hd (toggleWatchlist (entity_id e) [e])) ph)
     = min 100 (score (calculateThreatScore e ph) + 5)
   \<and> (score (calculateThreatScore e ph) \<le> 95 \<longrightarrow>
        score (calculateThreatScore (hd (toggleWatchlist (entity_id e) [e])) ph)
          = score (calculateThreatScore e ph) + 5)
   \<and> factors (calculateThreatScore (hd (toggleWatchlist (entity_id e) [e])) ph)
       = factors (calculateThreatScore e ph) @ [''User Flagged'']
   \<and> length (toggleWatchlist eid es) = length es
   \<and> (\<forall>i<length es.
         (toggleWatchlist eid es ! i)
            \<lparr>session := (session (toggleWatchlist eid es ! i))
                          \<lparr>isWatched := isWatched (session (es ! i))\<rparr>\<rparr> = es ! i
       \<and> (entity_id (es ! i) \<noteq> eid \<longrightarrow> toggleWatchlist eid es ! i = es ! i)
       \<and> (entity_id (es ! i) = eid \<longrightarrow>
            isWatched (session (toggleWatchlist eid es ! i)) = (\<not> isWatched (session (es ! i)))))"
proof -
  have t: "hd (toggleWatchlist (entity_id e) [e]) = e\<lparr>session := (session e)\<lparr>isWatched := True\<rparr>\<rparr>"
    using assms by (rule toggle_single_on)
  have a: "score (calculateThreatScore (hd (toggleWatchlist (entity_id e) [e])) ph)
             = min 100 (score (calculateThreatScore e ph) + 5)"
    unfolding t by (simp add: calculateThreatScore_def Let_def tally_flagged[OF assms])
  have b: "factors (calculateThreatScore (hd (toggleWatchlist (entity_id e) [e])) ph)
             = factors (calculateThreatScore e ph) @ [''User Flagged'']"
    unfolding t by (simp add: calculateThreatScore_def Let_def tally_flagged[OF assms])
  have c: "length (toggleWatchlist eid es) = length es"
    by (simp add: toggleWatchlist_def)
  have d: "\<forall>i<length es.
         (toggleWatchlist eid es ! i)
            \<lparr>session := (session (toggleWatchlist eid es ! i))
                          \<lparr>isWatched := isWatched (session (es ! i))\<rparr>\<rparr> = es ! i
       \<and> (entity_id (es ! i) \<noteq> eid \<longrightarrow> toggleWatchlist eid es ! i = es ! i)
       \<and> (entity_id (es ! i) = eid \<longrightarrow>
            isWatched (session (toggleWatchlist eid es ! i)) = (\<not> isWatched (session (es ! i))))"
    by (simp add: toggleWatchlist_def)
  from a b c d show ?thesis by simp
qed

theorem toggle_adds_flag_contribution_witness:
  "\<not> isWatched (session plain_fan)
   \<and> score (calculateThreatScore plain_fan Q1) = 0
   \<and> score (calculateThreatScore (hd (toggleWatchlist (entity_id plain_fan) [plain_fan])) Q1) = 5
   \<and> factors (calculateThreatScore (hd (toggleWatchlist (entity_id plain_fan) [plain_fan])) Q1)
       = factors (calculateThreatScore plain_fan Q1) @ [''User Flagged'']
   \<and> (toggleWatchlist (entity_id plain_fan) [plain_fan] ! 0)
        \<lparr>session := (session (toggleWatchlist (entity_id plain_fan) [plain_fan] ! 0))
                      \<lparr>isWatched := isWatched (session plain_fan)\<rparr>\<rparr> = plain_fan"
proof -
  have w: "\<not> isWatched (session plain_fan)"
    by (simp add: plain_fan_fields)
  have z: "score (calculateThreatScore plain_fan Q1) = 0"
    by (simp add: score_eq raw_plain_fan)
  have l: "(0::nat) < length [plain_fan]" and n: "[plain_fan] ! 0 = plain_fan"
    by simp_all
  note T = toggle_adds_flag_contribution[OF w, of Q1 "entity_id plain_fan" "[plain_fan]"]
  have s5: "score (calculateThreatScore (hd (toggleWatchlist (entity_id plain_fan) [plain_fan])) Q1) = 5"
    using T z by simp
  have f: "factors (calculateThreatScore (hd (toggleWatchlist (entity_id plain_fan) [plain_fan])) Q1)
       = factors (calculateThreatScore plain_fan Q1) @ [''User Flagged'']"
    using T by blast
  have r: "(toggleWatchlist (entity_id plain_fan) [plain_fan] ! 0)
        \<lparr>session := (session (toggleWatchlist (entity_id plain_fan) [plain_fan] ! 0))
                      \<lparr>isWatched := isWatched (session plain_fan)\<rparr>\<rparr> = plain_fan"
    using T l n by metis
  from w z s5 f r show ?thesis by blast
qed

text \<open>The claim as stated fails for an agent whose unclamped score is 101: its
  score is 100 before and after the toggle.\<close>

theorem toggle_saturated_counterexample:
  "\<not> isWatched (session saturated_fan)
   \<and> score (calculateThreatScore saturated_fan Q1) = 100
   \<and> score (calculateThreatScore
              (hd (toggleWatchlist (entity_id saturated_fan) [saturated_fan])) Q1) = 100
   \<and> score (calculateThreatScore
              (hd (toggleWatchlist (entity_id saturated_fan) [saturated_fan])) Q1)
        \<noteq> score (calculateThreatScore saturated_fan Q1) + 5"
proof -
  have w: "\<not> isWatched (session saturated_fan)"
    by (simp add: saturated_fan_fields)
  have a: "score (calculateThreatScore saturated_fan Q1) = 100"
    by (simp add: score_eq raw_saturated_fan)
  have b: "score (calculateThreatScore
              (hd (toggleWatchlist (entity_id saturated_fan) [saturated_fan])) Q1) = 100"
    by (simp add: toggle_single_on[OF w] score_eq tally_flagged[OF w] raw_saturated_fan)
  from w a b show ?thesis by simp
qed

section \<open>Properties of the prediction queue\<close>

lemma newPred_sel [simp]:
  "timestamp (newPred now e pr conf) = now" "entityId (newPred now e pr conf) = entity_id e"
  "prediction (newPred now e pr conf) = pr" "confidence (newPred now e pr conf) = conf"
  by (simp_all add: newPred_def Let_def)

lemma isDuplicate_iff:
  "isDuplicate now e pr prev =
     (\<exists>p \<in> set prev. entityId p = entity_id e \<and> prediction p = pr \<and> now - timestamp p < 10000)"
  by (simp add: isDuplicate_def list_ex_iff)

lemma add_dup: "isDuplicate now e pr prev \<Longrightarrow> addPrediction now e pr conf prev = prev"
  by (simp add: addPrediction_def)

lemma add_fresh:
  "\<not> isDuplicate now e pr prev \<Longrightarrow>
     addPrediction now e pr conf prev = take 5 (newPred now e pr conf # prev)"
  by (simp add: addPrediction_def)

lemma length_addPrediction:
  "length prev \<le> 5 \<Longrightarrow> length (addPrediction now e pr conf prev) \<le> 5"
  by (simp add: addPrediction_def)

lemma length_dismiss: "length (dismissPrediction i prev) \<le> length prev"
  by (simp add: dismissPrediction_def)

lemma length_add_requests:
  "length prev \<le> 5 \<Longrightarrow> length (add_requests now outs prev) \<le> 5"
  unfolding add_requests_def
proof (induction outs arbitrary: prev)
  case Nil
  then show ?case by simp
next
  case (Cons out outs)
  show ?case
  proof (cases "request out")
    case None
    then show ?thesis using Cons by simp
  next
    case (Some r)
    obtain e pr conf where r: "r = (e, pr, conf)" by (cases r)
    show ?thesis using Cons.prems Some r
      by (simp add: Cons.IH length_addPrediction)
  qed
qed

lemma predictions_tick:
  "predictions (tick now g s) =
     add_requests now (fst (update_all (phase (currentPhase s)) (entities s) g)) (predictions s)"
  by (simp add: tick_def Let_def split: prod.splits)

lemma length_apply_command:
  assumes "length (predictions s) \<le> 5"
  shows "length (predictions (apply_command s c)) \<le> 5"
proof (cases c)
  case (Tick now g)
  then show ?thesis using assms by (simp add: predictions_tick length_add_requests)
next
  case (ToggleWatchlist eid)
  then show ?thesis using assms by simp
next
  case (DismissPrediction i)
  then show ?thesis using assms length_dismiss[of i "predictions s"] by simp
qed

lemma length_foldl_commands:
  "length (predictions s) \<le> 5 \<Longrightarrow> length (predictions (foldl apply_command s cmds)) \<le> 5"
  by (induction cmds arbitrary: s) (simp_all add: length_apply_command)

lemma evict_oldest: "length prev = 5 \<Longrightarrow> take 5 (x # prev) = x # butlast prev"
  by (simp add: butlast_conv_take)

lemma for_pair_take: "for_pair i pr prev = [] \<Longrightarrow> for_pair i pr (take n prev) = []"
  unfolding for_pair_def filter_empty_conv by (meson in_set_takeD)

lemma not_dup_if_none:
  "for_pair (entity_id e) pr prev = [] \<Longrightarrow> \<not> isDuplicate now e pr prev"
  unfolding for_pair_def filter_empty_conv isDuplicate_iff by blast

lemma alerts_0_eq: "alerts_0 = [newPred 0 capped_drinker ''INTOXICATION_MONITOR'' 114]"
  by (simp add: alerts_0_def addPrediction_def isDuplicate_def)

lemma alerts_1_eq:
  "alerts_1 = [newPred 10000 capped_drinker ''INTOXICATION_MONITOR'' 114,
               newPred 0 capped_drinker ''INTOXICATION_MONITOR'' 114]"
  by (simp add: alerts_1_def alerts_0_eq addPrediction_def isDuplicate_def)

lemma alerts_2_eq: "alerts_2 = alerts_1"
  unfolding alerts_2_def by (rule add_dup) (simp add: alerts_1_eq isDuplicate_def)

text \<open>
  Claim C4, as amended. A prediction issued for a pair of agent and pattern
  while the queue holds a prediction of that pair created less than 10 seconds
  before (the first is still live: neither dismissed nor evicted) is suppressed
  and leaves the queue as it is. Hence, if at that moment the first is the only
  live prediction of the pair, the queue afterwards holds exactly one prediction
  of the pair, the first. That is the case right after the first was inserted
  into a queue holding no prediction of the pair. Older live predictions of the
  pair are not removed and are counted along.
\<close>

theorem duplicate_within_cooldown_suppressed:
  "(p \<in> set prev \<and> entityId p = entity_id e \<and> prediction p = pr \<and> now - timestamp p < 10000
      \<longrightarrow> addPrediction now e pr conf prev = prev
        \<and> for_pair (entity_id e) pr (addPrediction now e pr conf prev)
            = for_pair (entity_id e) pr prev)
   \<and> (for_pair (entity_id e) pr prev = [p] \<and> now - timestamp p < 10000 \<longrightarrow>
        addPrediction now e pr conf prev = prev
      \<and> for_pair (entity_id e) pr (addPrediction now e pr conf prev) = [p])
   \<and> (for_pair (entity_id e) pr prev0 = [] \<longrightarrow>
        addPrediction t1 e pr c1 prev0 = newPred t1 e pr c1 # take 4 prev0
      \<and> for_pair (entity_id e) pr (addPrediction t1 e pr c1 prev0) = [newPred t1 e pr c1])"
proof -
  have A: "addPrediction now e pr conf prev = prev"
    if "p \<in> set prev \<and> entityId p = entity_id e \<and> prediction p = pr \<and> now - timestamp p < 10000"
  proof -
    from that have "isDuplicate now e pr prev"
      unfolding isDuplicate_iff by blast
    then show ?thesis
      by (rule add_dup)
  qed
  have B: "addPrediction now e pr conf prev = prev
      \<and> for_pair (entity_id e) pr (addPrediction now e pr conf prev) = [p]"
    if h: "for_pair (entity_id e) pr prev = [p] \<and> now - timestamp p < 10000"
  proof -
    from h have "p \<in> set (for_pair (entity_id e) pr prev)"
      by simp
    then have "p \<in> set prev \<and> entityId p = entity_id e \<and> prediction p = pr"
      by (simp add: for_pair_def)
    with h have "addPrediction now e pr conf prev = prev"
      by (intro A) simp
    with h show ?thesis
      by simp
  qed
  have C: "addPrediction t1 e pr c1 prev0 = newPred t1 e pr c1 # take 4 prev0
      \<and> for_pair (entity_id e) pr (addPrediction t1 e pr c1 prev0) = [newPred t1 e pr c1]"
    if none: "for_pair (entity_id e) pr prev0 = []"
  proof -
    have 1: "addPrediction t1 e pr c1 prev0 = newPred t1 e pr c1 # take 4 prev0"
      using not_dup_if_none[OF none] by (simp add: add_fresh)
    have "for_pair (entity_id e) pr (newPred t1 e pr c1 # take 4 prev0) = [newPred t1 e pr c1]"
      using for_pair_take[OF none, of 4] by (simp add: for_pair_def)
    with 1 show ?thesis
      by simp
  qed
  have A': "addPrediction now e pr conf prev = prev
        \<and> for_pair (entity_id e) pr (addPrediction now e pr conf prev)
            = for_pair (entity_id e) pr prev"
    if "p \<in> set prev \<and> entityId p = entity_id e \<and> prediction p = pr \<and> now - timestamp p < 10000"
    using A[OF that] by simp
  from A' B C show ?thesis
    by blast
qed

theorem duplicate_within_cooldown_suppressed_witness:
  "for_pair (entity_id capped_drinker) ''INTOXICATION_MONITOR'' [] = []
   \<and> addPrediction 0 capped_drinker ''INTOXICATION_MONITOR'' 114 [] = alerts_0
   \<and> for_pair (entity_id capped_drinker) ''INTOXICATION_MONITOR'' alerts_0
       = [newPred 0 capped_drinker ''INTOXICATION_MONITOR'' 114]
   \<and> 4000 - timestamp (newPred 0 capped_drinker ''INTOXICATION_MONITOR'' 114) < 10000
   \<and> addPrediction 4000 capped_drinker ''INTOXICATION_MONITOR'' 114 alerts_0 = alerts_0
   \<and> for_pair (entity_id capped_drinker) ''INTOXICATION_MONITOR''
        (addPrediction 4000 capped_drinker ''INTOXICATION_MONITOR'' 114 alerts_0)
       = [newPred 0 capped_drinker ''INTOXICATION_MONITOR'' 114]"
proof -
  note T = duplicate_within_cooldown_suppressed[of
        "newPred 0 capped_drinker ''INTOXICATION_MONITOR'' 114" alerts_0 capped_drinker
        "''INTOXICATION_MONITOR''" 4000 114 "[]" 0 114]
  have e: "for_pair (entity_id capped_drinker) ''INTOXICATION_MONITOR'' [] = []"
    by (simp add: for_pair_def)
  have z: "addPrediction 0 capped_drinker ''INTOXICATION_MONITOR'' 114 [] = alerts_0"
    by (simp add: alerts_0_def)
  have f: "for_pair (entity_id capped_drinker) ''INTOXICATION_MONITOR'' alerts_0
       = [newPred 0 capped_drinker ''INTOXICATION_MONITOR'' 114]"
    using T e z by metis
  have t: "4000 - timestamp (newPred 0 capped_drinker ''INTOXICATION_MONITOR'' 114) < 10000"
    by simp
  have m: "newPred 0 capped_drinker ''INTOXICATION_MONITOR'' 114 \<in> set alerts_0
     \<and> entityId (newPred 0 capped_drinker ''INTOXICATION_MONITOR'' 114) = entity_id capped_drinker
     \<and> prediction (newPred 0 capped_drinker ''INTOXICATION_MONITOR'' 114) = ''INTOXICATION_MONITOR''"
    by (simp add: alerts_0_eq)
  have u: "addPrediction 4000 capped_drinker ''INTOXICATION_MONITOR'' 114 alerts_0 = alerts_0"
    using T m t by blast
  have o: "for_pair (entity_id capped_drinker) ''INTOXICATION_MONITOR''
        (addPrediction 4000 capped_drinker ''INTOXICATION_MONITOR'' 114 alerts_0)
       = [newPred 0 capped_drinker ''INTOXICATION_MONITOR'' 114]"
    using T f t by blast
  from e z f t u o show ?thesis
    by blast
qed

text \<open>The claim as stated fails when an older prediction of the pair is still
  live: of three alerts issued at 0 s, 10 s and 15 s the third is suppressed, yet
  the queue then holds two predictions of the pair.\<close>

theorem two_live_predictions_counterexample:
  "alerts_1 = [newPred 10000 capped_drinker ''INTOXICATION_MONITOR'' 114,
               newPred 0 capped_drinker ''INTOXICATION_MONITOR'' 114]
   \<and> (15000::int) - 10000 < 10000
   \<and> alerts_2 = alerts_1
   \<and> length (for_pair (entity_id capped_drinker) ''INTOXICATION_MONITOR'' alerts_2) = 2"
  by (simp add: alerts_2_eq alerts_1_eq for_pair_def)

text \<open>
  Claim C5. From the empty queue of the initial state, no sequence of ticks,
  watchlist toggles and dismissals leaves more than 5 live predictions. A
  prediction that is not a duplicate is put in front and the list cut to 5
  entries, which for a full queue drops its last, oldest entry whatever the
  priorities; a dismissal only removes entries, namely those with the given id.
\<close>

theorem prediction_queue_bounded:
  "length (predictions (run es cmds)) \<le> 5
   \<and> (\<not> isDuplicate now e pr prev \<longrightarrow>
        addPrediction now e pr conf prev = take 5 (newPred now e pr conf # prev))
   \<and> (\<not> isDuplicate now e pr prev \<and> length prev = 5 \<longrightarrow>
        addPrediction now e pr conf prev = newPred now e pr conf # butlast prev)
   \<and> (length prev \<le> 5 \<longrightarrow> length (addPrediction now e pr conf prev) \<le> 5)
   \<and> set (dismissPrediction predId prev) = {p \<in> set prev. pred_id p \<noteq> predId}
   \<and> length (dismissPrediction predId prev) \<le> length prev"
proof -
  have "length (predictions (run es cmds)) \<le> 5"
    unfolding run_def by (rule length_foldl_commands) (simp add: initial_def)
  moreover have "addPrediction now e pr conf prev = newPred now e pr conf # butlast prev"
    if "\<not> isDuplicate now e pr prev \<and> length prev = 5"
  proof -
    from that have nd: "\<not> isDuplicate now e pr prev" and full: "length prev = 5"
      by simp_all
    show ?thesis
      unfolding add_fresh[OF nd] by (rule evict_oldest[OF full])
  qed
  moreover have "set (dismissPrediction predId prev) = {p \<in> set prev. pred_id p \<noteq> predId}"
    by (simp add: dismissPrediction_def)
  ultimately show ?thesis
    using add_fresh[of now e pr prev conf] length_addPrediction[of prev now e pr conf]
      length_dismiss[of predId prev]
    by blast
qed

theorem prediction_queue_bounded_witness:
  "length full_queue = 5
   \<and> \<not> isDuplicate 50000 capped_drinker ''INTOXICATION_MONITOR'' full_queue
   \<and> addPrediction 50000 capped_drinker ''INTOXICATION_MONITOR'' 114 full_queue
       = newPred 50000 capped_drinker ''INTOXICATION_MONITOR'' 114 # butlast full_queue
   \<and> length (addPrediction 50000 capped_drinker ''INTOXICATION_MONITOR'' 114 full_queue) \<le> 5
   \<and> length (predictions (run [capped_drinker]
        [Tick 1000 (\<lambda>n. 0.965), DismissPrediction ''fan-1000-INTOXICATION_MONITOR-1000'',
         ToggleWatchlist ''fan-1000''])) \<le> 5"
proof -
  have a: "length full_queue = 5"
    by (simp add: full_queue_def)
  have b: "\<not> isDuplicate 50000 capped_drinker ''INTOXICATION_MONITOR'' full_queue"
    by (simp add: full_queue_def isDuplicate_def)
  have c: "length full_queue \<le> 5"
    using a by simp
  show ?thesis
    using a b c
      prediction_queue_bounded[of "[capped_drinker]"
        "[Tick 1000 (\<lambda>n. 0.965), DismissPrediction ''fan-1000-INTOXICATION_MONITOR-1000'',
          ToggleWatchlist ''fan-1000'']"
        50000 capped_drinker "''INTOXICATION_MONITOR''" full_queue 114]
    by blast
qed

section \<open>Properties of the simulation tick\<close>

text \<open>The target of an entity is itself a position; its update leaves the
  entity's own coordinates alone, and conversely.\<close>

lemma target_update_pos [simp]:
  "longitude (w\<lparr>target := t\<rparr>) = longitude (w::entity)"
  "latitude (w\<lparr>target := t\<rparr>) = latitude (w::entity)"
  "target (w\<lparr>longitude := x\<rparr>) = target (w::entity)"
  "target (w\<lparr>latitude := y\<rparr>) = target (w::entity)"
  by (cases w; simp)+

subsection \<open>Draws and resampled positions\<close>

lemma unit_draws_advance: "unit_draws g \<Longrightarrow> unit_draws (advance k g)"
  by (simp add: unit_draws_def advance_def)

lemma getRandomPos_rng: "snd (getRandomPos zp g) = advance 3 g"
  by (simp add: getRandomPos_def Let_def)

lemma getRandomPos_outside:
  assumes "unit_draws g"
  shows "\<not> isInRestrictedField (longitude (fst (getRandomPos zp g))) (latitude (fst (getRandomPos zp g)))"
proof -
  have b: "0 \<le> g 1" "g 1 < 1" "0 \<le> g 2" "g 2 < 1"
    using assms by (simp_all add: unit_draws_def)
  show ?thesis
    using b by (simp add: getRandomPos_def isInRestrictedField_def FIELD_BOUNDS_def Let_def)
qed

subsection \<open>The prediction branch\<close>

lemma floor_conf: "\<lfloor>50 + real_of_int n * 8\<rfloor> = 50 + 8 * n"
proof -
  have "50 + real_of_int n * 8 = real_of_int (50 + 8 * n)" by simp
  then show ?thesis by (simp only: floor_of_int)
qed

lemma choose_prediction_fires:
  assumes "fst (choose_prediction th w g) = Some (pr, conf)"
  shows "40 \<le> score th" 
    and "score th < 60 \<Longrightarrow> alcoholCount (session w) \<ge> 3 \<Longrightarrow> pr = ''INTOXICATION_MONITOR'' \<and> conf = 50 + 8 * alcoholCount (session w)"
  using assms by (auto simp: choose_prediction_def floor_conf split: if_splits)

subsection \<open>What each stage of the update keeps\<close>

lemma isAuthorized_iff: "isAuthorized e = (ticketType e = Staff \<or> ticketType e = Media)"
  by (simp add: isAuthorized_def)

lemma push_out_keeps:
  "ticketType (fst (push_out w g)) = ticketType w"
  "session (fst (push_out w g)) = session w"
  "history (fst (push_out w g)) = history w"
  "waitTicks (fst (push_out w g)) = waitTicks w"
  "status (fst (push_out w g)) = status w"
  by (simp_all add: push_out_def Let_def case_prod_beta)

lemma push_out_safe:
  assumes "unit_draws g" "\<not> isAuthorized w"
  shows "\<not> isInRestrictedField (longitude (fst (push_out w g))) (latitude (fst (push_out w g)))"
  using assms getRandomPos_outside[OF assms(1), of None]
  by (simp add: push_out_def Let_def case_prod_beta)

lemma push_out_rng: "unit_draws g \<Longrightarrow> unit_draws (snd (push_out w g))"
  by (simp add: push_out_def Let_def case_prod_beta getRandomPos_rng unit_draws_advance)

lemma fix_target_keeps:
  "longitude (fst (fix_target w g)) = longitude w"
  "latitude (fst (fix_target w g)) = latitude w"
  "ticketType (fst (fix_target w g)) = ticketType w"
  "session (fst (fix_target w g)) = session w"
  "history (fst (fix_target w g)) = history w"
  "waitTicks (fst (fix_target w g)) = waitTicks w"
  "status (fst (fix_target w g)) = status w"
  by (simp_all add: fix_target_def Let_def case_prod_beta)

lemma fix_target_rng: "unit_draws g \<Longrightarrow> unit_draws (snd (fix_target w g))"
  by (simp add: fix_target_def Let_def case_prod_beta getRandomPos_rng unit_draws_advance)

lemma move_keeps:
  "ticketType (fst (move ph w g)) = ticketType w"
  "session (fst (move ph w g)) = session w"
  "history (fst (move ph w g)) = history w"
  "waitTicks (fst (move ph w g)) = waitTicks w"
  "status (fst (move ph w g)) = status w"
  by (simp_all add: move_def Let_def case_prod_beta)

lemma move_safe:
  assumes "\<not> isAuthorized w" "\<not> isInRestrictedField (longitude w) (latitude w)"
  shows "\<not> isInRestrictedField (longitude (fst (move ph w g))) (latitude (fst (move ph w g)))"
  using assms by (simp add: move_def Let_def case_prod_beta)

lemma move_rng: "unit_draws g \<Longrightarrow> unit_draws (snd (move ph w g))"
  by (simp add: move_def Let_def case_prod_beta getRandomPos_rng unit_draws_advance)

lemma track_zone_keeps:
  "longitude (track_zone w) = longitude w"
  "latitude (track_zone w) = latitude w"
  "ticketType (track_zone w) = ticketType w"
  "alcoholCount (session (track_zone w)) = alcoholCount (session w)"
  "isWatched (session (track_zone w)) = isWatched (session w)"
  "history (track_zone w) = history w"
  "waitTicks (track_zone w) = waitTicks w"
  "status (track_zone w) = status w"
  by (simp_all add: track_zone_def Let_def)

lemma purchase_keeps:
  "longitude (fst (purchase ph w g)) = longitude w"
  "latitude (fst (purchase ph w g)) = latitude w"
  "ticketType (fst (purchase ph w g)) = ticketType w"
  "isWatched (session (fst (purchase ph w g))) = isWatched (session w)"
  "history (fst (purchase ph w g)) = history w"
  "waitTicks (fst (purchase ph w g)) = waitTicks w"
  "status (fst (purchase ph w g)) = status w"
  by (simp_all add: purchase_def Let_def)

lemma purchase_cap:
  "alcoholCount (session w) \<le> 8 \<Longrightarrow> alcoholCount (session (fst (purchase ph w g))) \<le> 8"
  by (simp add: purchase_def Let_def)

lemma purchase_rng: "unit_draws g \<Longrightarrow> unit_draws (snd (purchase ph w g))"
  by (simp add: purchase_def Let_def unit_draws_advance)

lemma transition_log_rng: "unit_draws g \<Longrightarrow> unit_draws (transition_log w g)"
  by (simp add: transition_log_def Let_def unit_draws_advance)

lemma relapse_keeps:
  "longitude (fst (relapse w g)) = longitude w"
  "latitude (fst (relapse w g)) = latitude w"
  "ticketType (fst (relapse w g)) = ticketType w"
  "session (fst (relapse w g)) = session w"
  "history (fst (relapse w g)) = history w"
  "waitTicks (fst (relapse w g)) = waitTicks w"
  by (simp_all add: relapse_def)

lemma relapse_rng: "unit_draws g \<Longrightarrow> unit_draws (snd (relapse w g))"
  by (simp add: relapse_def unit_draws_advance)

lemma choose_prediction_rng: "unit_draws g \<Longrightarrow> unit_draws (snd (choose_prediction th w g))"
  by (simp add: choose_prediction_def unit_draws_advance)

lemmas stage_keeps = push_out_keeps fix_target_keeps move_keeps track_zone_keeps purchase_keeps relapse_keeps
lemmas stage_rng = push_out_rng fix_target_rng move_rng purchase_rng transition_log_rng relapse_rng choose_prediction_rng unit_draws_advance

subsection \<open>One entity, then all of them\<close>

lemma update_entity_ticket: "ticketType (next_entity (fst (update_entity ph e g))) = ticketType e"
  by (simp add: update_entity_def Let_def case_prod_beta stage_keeps)

lemma update_entity_rng: "unit_draws g \<Longrightarrow> unit_draws (snd (update_entity ph e g))"
  by (simp add: update_entity_def Let_def case_prod_beta stage_rng)

lemma update_entity_safe:
  assumes "unit_draws g" "\<not> isAuthorized e"
  shows "\<not> isInRestrictedField (longitude (next_entity (fst (update_entity ph e g))))
                               (latitude (next_entity (fst (update_entity ph e g))))"
proof -
  let ?w1 = "fst (push_out e g)"
  let ?w2 = "fst (fix_target ?w1 (snd (push_out e g)))"
  have s2: "\<not> isInRestrictedField (longitude ?w2) (latitude ?w2)"
    using push_out_safe[OF assms] by (simp add: fix_target_keeps)
  have a2: "\<not> isAuthorized ?w2"
    using assms(2) by (simp add: isAuthorized_iff stage_keeps)
  show ?thesis
    using s2 move_safe[OF a2 s2]
    by (simp add: update_entity_def Let_def case_prod_beta stage_keeps)
qed

lemma update_entity_cap:
  "alcoholCount (session e) \<le> 8 \<Longrightarrow> alcoholCount (session (next_entity (fst (update_entity ph e g)))) \<le> 8"
  by (simp add: update_entity_def Let_def case_prod_beta stage_keeps purchase_cap)

lemma update_all_rel:
  "unit_draws g \<Longrightarrow>
   list_all2 (\<lambda>e out. ticketType (next_entity out) = ticketType e
                 \<and> (\<not> isAuthorized e \<longrightarrow> \<not> isInRestrictedField (longitude (next_entity out)) (latitude (next_entity out)))
                 \<and> (alcoholCount (session e) \<le> 8 \<longrightarrow> alcoholCount (session (next_entity out)) \<le> 8))
      es (fst (update_all ph es g))"
proof (induction es arbitrary: g)
  case Nil
  then show ?case by simp
next
  case (Cons e es)
  have r: "unit_draws (snd (update_entity ph e g))"
    using Cons.prems by (rule update_entity_rng)
  show ?case
    using Cons.IH[OF r] update_entity_safe[OF Cons.prems, of e ph] update_entity_cap[of e ph g]
    by (simp add: case_prod_beta Let_def update_entity_ticket)
qed

lemma entities_tick: "entities (tick now g s) = map next_entity (fst (update_all (phase (currentPhase s)) (entities s) g))"
  by (simp add: tick_def Let_def case_prod_beta)

lemma tick_safe:
  assumes "unit_draws g" "e' \<in> set (entities (tick now g s))" "\<not> isAuthorized e'"
  shows "\<not> isInRestrictedField (longitude e') (latitude e')"
proof -
  let ?outs = "fst (update_all (phase (currentPhase s)) (entities s) g)"
  from assms(2) obtain out where o: "out \<in> set ?outs" and e': "e' = next_entity out"
    by (auto simp: entities_tick)
  from o obtain i where i: "i < length ?outs" and oi: "out = ?outs ! i"
    by (auto simp: in_set_conv_nth)
  have rel: "list_all2 (\<lambda>e out. ticketType (next_entity out) = ticketType e
                 \<and> (\<not> isAuthorized e \<longrightarrow> \<not> isInRestrictedField (longitude (next_entity out)) (latitude (next_entity out)))
                 \<and> (alcoholCount (session e) \<le> 8 \<longrightarrow> alcoholCount (session (next_entity out)) \<le> 8))
      (entities s) ?outs"
    using assms(1) by (rule update_all_rel)
  have "ticketType (next_entity out) = ticketType (entities s ! i)
     \<and> (\<not> isAuthorized (entities s ! i) \<longrightarrow> \<not> isInRestrictedField (longitude (next_entity out)) (latitude (next_entity out)))"
    using list_all2_nthD2[OF rel i] oi by simp
  then show ?thesis
    using assms(3) e' by (simp add: isAuthorized_iff)
qed

lemma update_all_cap:
  "list_all2 (\<lambda>e out. alcoholCount (session e) \<le> 8 \<longrightarrow> alcoholCount (session (next_entity out)) \<le> 8)
      es (fst (update_all ph es g))"
proof (induction es arbitrary: g)
  case Nil
  then show ?case by simp
next
  case (Cons e es)
  show ?case
    using Cons.IH[of "snd (update_entity ph e g)"] update_entity_cap[of e ph g]
    by (simp add: case_prod_beta Let_def)
qed

lemma capped_tick: assumes "capped (entities s)" shows "capped (entities (tick now g s))"
proof -
  let ?outs = "fst (update_all (phase (currentPhase s)) (entities s) g)"
  have rel: "list_all2 (\<lambda>e out. alcoholCount (session e) \<le> 8 \<longrightarrow> alcoholCount (session (next_entity out)) \<le> 8) (entities s) ?outs"
    by (rule update_all_cap)
  have "alcoholCount (session (next_entity out)) \<le> 8" if "out \<in> set ?outs" for out
  proof -
    from that obtain i where i: "i < length ?outs" and oi: "out = ?outs ! i"
      by (auto simp: in_set_conv_nth)
    have len: "length (entities s) = length ?outs"
      using rel by (rule list_all2_lengthD)
    have "alcoholCount (session (entities s ! i)) \<le> 8"
      using assms i len by (simp add: capped_def list_all_length)
    then show ?thesis
      using list_all2_nthD2[OF rel i] oi by simp
  qed
  then show ?thesis
    by (simp add: capped_def entities_tick list_all_iff)
qed

lemma capped_toggle: "capped es \<Longrightarrow> capped (toggleWatchlist eid es)"
  by (induction es) (simp_all add: capped_def toggleWatchlist_def)

lemma capped_apply: "capped (entities s) \<Longrightarrow> capped (entities (apply_command s c))"
  by (cases c) (simp_all add: capped_tick capped_toggle)

lemma capped_foldl: "capped (entities s) \<Longrightarrow> capped (entities (foldl apply_command s cmds))"
  by (induction cmds arbitrary: s) (simp_all add: capped_apply)

lemma generateEntity_fresh: "alcoholCount (session (fst (generateEntity i g))) = 0"
  by (simp add: generateEntity_def Let_def case_prod_beta)

lemma capped_generate_from: "capped (generate_from i k g)"
  by (induction k arbitrary: i g) (simp_all add: capped_def case_prod_beta Let_def generateEntity_fresh)

lemma capped_run: "capped (entities (run (generateEntities n g0) cmds))"
  unfolding run_def by (rule capped_foldl) (simp add: initial_def generateEntities_def capped_generate_from)

subsection \<open>The capped drinker, updated\<close>

lemma capped_drinker_zone: "getZoneForPoint (longitude capped_drinker) (latitude capped_drinker) = properties bowl"
  by (rule bowl_first) (simp add: in_bowl capped_drinker_def plain_fan_def)

lemma capped_drinker_fields:
  "history capped_drinker = \<lparr>priorIncidents = 0, watchlistStatus = WNone, alcoholPattern = Heavy\<rparr>"
  "session capped_drinker = \<lparr>alcoholCount = 8, zonesVisited = [Some ''bowl''], isWatched = False\<rparr>"
  "ticketType capped_drinker = General" "status capped_drinker = Normal"
  "waitTicks capped_drinker = 0" "target capped_drinker = \<lparr>longitude = longitude capped_drinker, latitude = latitude capped_drinker\<rparr>"
  by (simp_all add: capped_drinker_def plain_fan_def)

lemma capped_drinker_outside_field: "\<not> isInRestrictedField (longitude capped_drinker) (latitude capped_drinker)"
  by (simp add: isInRestrictedField_def FIELD_BOUNDS_def capped_drinker_def plain_fan_def)

lemma tally_capped_drinker: "tally_of capped_drinker = (40, [''Heavy Drinker History'', ''Excessive Alcohol (6+)''])"
  by (simp add: tally_of_def factor_defs capped_drinker_fields capped_drinker_zone zoneType_features add_factor_def)

lemma threat_capped_drinker: "calculateThreatScore capped_drinker ph = \<lparr>score = 40, level = MEDIUM, factors = [''Heavy Drinker History'', ''Excessive Alcohol (6+)'']\<rparr>"
  by (simp add: calculateThreatScore_def tally_capped_drinker)

lemma zone_id_bowl: "zone_id (properties bowl) = Some ''bowl''"
  by (simp add: bowl_def)

lemma update_capped_drinker:
  assumes draws: "\<And>n. g n = 0.965"
  shows "request (fst (update_entity Q1 capped_drinker g)) = Some (capped_drinker, ''INTOXICATION_MONITOR'', 114)"
proof -
  have P: "push_out capped_drinker h = (capped_drinker, h)" for h
    by (simp add: push_out_def capped_drinker_outside_field)
  have F: "fix_target capped_drinker h = (capped_drinker, h)" for h
    by (simp add: fix_target_def capped_drinker_fields capped_drinker_outside_field)
  have M: "move Q1 capped_drinker h = (capped_drinker\<lparr>target := fst (getRandomPos None h)\<rparr>, advance 3 h)" for h
    by (simp add: move_def capped_drinker_fields Let_def MOVEMENT_SPEED_def case_prod_beta getRandomPos_rng)
  have T: "track_zone (capped_drinker\<lparr>target := t\<rparr>) = capped_drinker\<lparr>target := t\<rparr>" for t
    by (simp add: track_zone_def Let_def capped_drinker_zone zone_id_bowl capped_drinker_fields)
  have B: "purchase Q1 (capped_drinker\<lparr>target := t\<rparr>) k = (capped_drinker\<lparr>target := t\<rparr>, k)" for t k
    by (simp add: purchase_def Let_def capped_drinker_zone zoneType_features)
  have L: "transition_log (capped_drinker\<lparr>target := t\<rparr>) k = k" for t k
    by (simp add: transition_log_def Let_def capped_drinker_zone zone_id_bowl capped_drinker_fields)
  have R: "relapse (capped_drinker\<lparr>target := t\<rparr>) k = (capped_drinker\<lparr>target := t\<rparr>, advance 1 k)" if "k 0 \<le> 0.995" for t k
    using that by (simp add: relapse_def)
  have TE: "capped_drinker\<lparr>longitude := longitude capped_drinker, latitude := latitude capped_drinker,
              inventory := inventory capped_drinker, session := session capped_drinker, status := status capped_drinker\<rparr> = capped_drinker"
    by simp
  have C: "choose_prediction (calculateThreatScore capped_drinker Q1) capped_drinker k = (Some (''INTOXICATION_MONITOR'', 114), advance 1 k)"
    if "k 0 > 0.96" for k
    using that by (simp add: choose_prediction_def threat_capped_drinker capped_drinker_fields)
  have d: "advance a h n = h (n + a)" for a h n
    by (simp add: advance_def)
  show ?thesis
    by (simp add: update_entity_def P F capped_drinker_fields(5) M T B L R d draws C Let_def)
qed

lemma map_option_pair_eq:
  "map_option (\<lambda>(pr, conf). (t, pr, conf)) c = Some (te, pr, conf) \<longleftrightarrow> t = te \<and> c = Some (pr, conf)"
  by (cases c) auto

lemma update_entity_request:
  assumes "request (fst (update_entity ph e g)) = Some (te, pr, conf)"
  shows "\<exists>k. fst (choose_prediction (calculateThreatScore te ph) te k) = Some (pr, conf)"
    and "alcoholCount (session e) \<le> 8 \<Longrightarrow> alcoholCount (session te) \<le> 8"
    and "entity_id te = entity_id e" and "history te = history e" and "ticketType te = ticketType e"
    and "longitude te = longitude (next_entity (fst (update_entity ph e g)))"
    and "latitude te = latitude (next_entity (fst (update_entity ph e g)))"
    and "session te = session (next_entity (fst (update_entity ph e g)))"
  using assms
  by (auto simp add: update_entity_def Let_def case_prod_beta map_option_pair_eq stage_keeps purchase_cap split: if_splits)

text \<open>The phase index read by \<^const>\<open>currentPhase\<close> is in range in every run.\<close>

lemma length_GAME_PHASES: "length GAME_PHASES = 8"
  by (simp add: GAME_PHASES_def)

lemma phase_index_apply:
  "gamePhaseIndex s < length GAME_PHASES \<Longrightarrow>
     gamePhaseIndex (apply_command s c) < length GAME_PHASES"
  by (cases c) (simp_all add: tick_def Let_def case_prod_beta length_GAME_PHASES)

lemma phase_index_foldl:
  "gamePhaseIndex s < length GAME_PHASES \<Longrightarrow>
     gamePhaseIndex (foldl apply_command s cmds) < length GAME_PHASES"
  by (induction cmds arbitrary: s) (simp_all add: phase_index_apply)

lemma phase_index_in_range: "gamePhaseIndex (run es cmds) < length GAME_PHASES"
  unfolding run_def by (rule phase_index_foldl) (simp add: initial_def length_GAME_PHASES)

lemma entities_tick_single:
  "entities (tick now g (initial [e])) = [next_entity (fst (update_entity PRE_GAME e g))]"
  by (simp add: entities_tick initial_def currentPhase_def GAME_PHASES_def case_prod_beta Let_def)

lemma midfield_fan_inside:
  "isInRestrictedField (longitude midfield_fan) (latitude midfield_fan)"
  by (simp add: isInRestrictedField_def FIELD_BOUNDS_def midfield_fan_def)

lemma midfield_fan_ticket: "ticketType midfield_fan = General"
  by (simp add: midfield_fan_def plain_fan_def)

lemma half_draws: "unit_draws (\<lambda>n. 1 / 2)"
  by (simp add: unit_draws_def)

subsection \<open>Claims about the tick\<close>

text \<open>
  Claim C3. With draws in \<open>[0, 1)\<close>, an entity that is neither staff nor
  media is outside the exclusion rectangle after its update, wherever it stood
  before; every position returned by \<^verbatim>\<open>getRandomPos\<close> is outside the
  rectangle; and after a whole tick no entity other than staff and media is
  inside it.
\<close>

theorem unprivileged_never_in_field:
  assumes "unit_draws g"
  shows
  "(ticketType e \<noteq> Staff \<and> ticketType e \<noteq> Media \<longrightarrow>
      \<not> isInRestrictedField (longitude (next_entity (fst (update_entity ph e g))))
                             (latitude (next_entity (fst (update_entity ph e g)))))
   \<and> \<not> isInRestrictedField (longitude (fst (getRandomPos zp g)))
                            (latitude (fst (getRandomPos zp g)))
   \<and> (\<forall>e' \<in> set (entities (tick now g s)).
         ticketType e' \<noteq> Staff \<and> ticketType e' \<noteq> Media \<longrightarrow>
           \<not> isInRestrictedField (longitude e') (latitude e'))"
proof (intro conjI impI ballI)
  assume "ticketType e \<noteq> Staff \<and> ticketType e \<noteq> Media"
  then have "\<not> isAuthorized e"
    by (simp add: isAuthorized_iff)
  with assms show "\<not> isInRestrictedField (longitude (next_entity (fst (update_entity ph e g))))
                             (latitude (next_entity (fst (update_entity ph e g))))"
    by (rule update_entity_safe)
next
  show "\<not> isInRestrictedField (longitude (fst (getRandomPos zp g)))
                            (latitude (fst (getRandomPos zp g)))"
    using assms by (rule getRandomPos_outside)
next
  fix e'
  assume mem: "e' \<in> set (entities (tick now g s))"
    and "ticketType e' \<noteq> Staff \<and> ticketType e' \<noteq> Media"
  then have "\<not> isAuthorized e'"
    by (simp add: isAuthorized_iff)
  with assms mem show "\<not> isInRestrictedField (longitude e') (latitude e')"
    by (rule tick_safe)
qed

theorem unprivileged_never_in_field_witness:
  "unit_draws (\<lambda>n. 1 / 2)
   \<and> isInRestrictedField (longitude midfield_fan) (latitude midfield_fan)
   \<and> \<not> isInRestrictedField
         (longitude (next_entity (fst (update_entity Q1 midfield_fan (\<lambda>n. 1 / 2)))))
         (latitude (next_entity (fst (update_entity Q1 midfield_fan (\<lambda>n. 1 / 2)))))
   \<and> \<not> isInRestrictedField (longitude (fst (getRandomPos None (\<lambda>n. 1 / 2))))
                            (latitude (fst (getRandomPos None (\<lambda>n. 1 / 2))))
   \<and> \<not> isInRestrictedField
         (longitude (hd (entities (tick 0 (\<lambda>n. 1 / 2) (initial [midfield_fan])))))
         (latitude (hd (entities (tick 0 (\<lambda>n. 1 / 2) (initial [midfield_fan])))))"
proof -
  let ?g = "(\<lambda>n. 1 / 2) :: rng"
  let ?e' = "hd (entities (tick 0 ?g (initial [midfield_fan])))"
  note T = unprivileged_never_in_field[OF half_draws, of midfield_fan Q1 None 0 "initial [midfield_fan]"]
  have t: "ticketType midfield_fan \<noteq> Staff \<and> ticketType midfield_fan \<noteq> Media"
    by (simp add: midfield_fan_ticket)
  have mem: "?e' \<in> set (entities (tick 0 ?g (initial [midfield_fan])))"
    by (simp only: entities_tick_single list.sel list.set insertI1)
  have t': "ticketType ?e' \<noteq> Staff \<and> ticketType ?e' \<noteq> Media"
    by (simp only: entities_tick_single list.sel update_entity_ticket midfield_fan_ticket) simp
  have a: "\<not> isInRestrictedField
         (longitude (next_entity (fst (update_entity Q1 midfield_fan ?g))))
         (latitude (next_entity (fst (update_entity Q1 midfield_fan ?g))))"
    using T t by blast
  have b: "\<not> isInRestrictedField (longitude (fst (getRandomPos None ?g)))
                            (latitude (fst (getRandomPos None ?g)))"
    using T by blast
  have c: "\<not> isInRestrictedField (longitude ?e') (latitude ?e')"
    using T mem t' by blast
  from half_draws midfield_fan_inside a b c show ?thesis
    by blast
qed

text \<open>
  Claim C9. A prediction is requested only for a threat score of at least 40.
  When one is requested for a score below 60 and at least 3 session drinks, its
  pattern is INTOXICATION_MONITOR and its confidence is 50 plus 8 times the
  drink count, with no upper clamp. The drink count of generated entities never
  passes 8 in any run, so this confidence is at most 114; a heavy drinker with 8
  drinks scores 40 and does receive the confidence 114.
\<close>

theorem intoxication_confidence_unclamped:
  "(request (fst (update_entity ph e g)) = Some (te, pr, conf) \<longrightarrow>
      40 \<le> score (calculateThreatScore te ph)
    \<and> (score (calculateThreatScore te ph) < 60 \<and> 3 \<le> alcoholCount (session te) \<longrightarrow>
         pr = ''INTOXICATION_MONITOR'' \<and> conf = 50 + 8 * alcoholCount (session te))
    \<and> (score (calculateThreatScore te ph) < 60 \<and> 3 \<le> alcoholCount (session te)
          \<and> alcoholCount (session e) \<le> 8 \<longrightarrow> conf \<le> 114))
   \<and> (fst (choose_prediction th w g) = Some (pr, conf) \<longrightarrow>
        40 \<le> score th
      \<and> (score th < 60 \<and> 3 \<le> alcoholCount (session w) \<longrightarrow>
           pr = ''INTOXICATION_MONITOR'' \<and> conf = 50 + 8 * alcoholCount (session w)))
   \<and> (alcoholCount (session e) \<le> 8 \<longrightarrow>
        alcoholCount (session (next_entity (fst (update_entity ph e g)))) \<le> 8)
   \<and> capped (entities (run (generateEntities n g0) cmds))
   \<and> score (calculateThreatScore capped_drinker Q1) = 40
   \<and> request (fst (update_entity Q1 capped_drinker (\<lambda>n. 0.965)))
        = Some (capped_drinker, ''INTOXICATION_MONITOR'', 114)"
proof -
  have A: "40 \<le> score (calculateThreatScore te ph)
    \<and> (score (calculateThreatScore te ph) < 60 \<and> 3 \<le> alcoholCount (session te) \<longrightarrow>
         pr = ''INTOXICATION_MONITOR'' \<and> conf = 50 + 8 * alcoholCount (session te))
    \<and> (score (calculateThreatScore te ph) < 60 \<and> 3 \<le> alcoholCount (session te)
          \<and> alcoholCount (session e) \<le> 8 \<longrightarrow> conf \<le> 114)"
    if r: "request (fst (update_entity ph e g)) = Some (te, pr, conf)"
  proof -
    from update_entity_request(1)[OF r] obtain k
      where k: "fst (choose_prediction (calculateThreatScore te ph) te k) = Some (pr, conf)"
      by blast
    have 1: "40 \<le> score (calculateThreatScore te ph)"
      using k by (rule choose_prediction_fires(1))
    have 2: "pr = ''INTOXICATION_MONITOR'' \<and> conf = 50 + 8 * alcoholCount (session te)"
      if "score (calculateThreatScore te ph) < 60" "3 \<le> alcoholCount (session te)"
      using choose_prediction_fires(2)[OF k] that by simp
    have 3: "conf \<le> 114"
      if "score (calculateThreatScore te ph) < 60" "3 \<le> alcoholCount (session te)"
        "alcoholCount (session e) \<le> 8"
      using 2[OF that(1,2)] update_entity_request(2)[OF r that(3)] by simp
    from 1 2 3 show ?thesis by blast
  qed
  have B: "40 \<le> score th
      \<and> (score th < 60 \<and> 3 \<le> alcoholCount (session w) \<longrightarrow>
           pr = ''INTOXICATION_MONITOR'' \<and> conf = 50 + 8 * alcoholCount (session w))"
    if c: "fst (choose_prediction th w g) = Some (pr, conf)"
    using choose_prediction_fires[OF c] by simp
  have C: "alcoholCount (session (next_entity (fst (update_entity ph e g)))) \<le> 8"
    if "alcoholCount (session e) \<le> 8"
    using that by (rule update_entity_cap)
  have D: "score (calculateThreatScore capped_drinker Q1) = 40"
    by (simp add: threat_capped_drinker)
  have E: "request (fst (update_entity Q1 capped_drinker (\<lambda>n. 0.965)))
        = Some (capped_drinker, ''INTOXICATION_MONITOR'', 114)"
    by (rule update_capped_drinker) simp
  from A B C D E capped_run[of n g0 cmds] show ?thesis
    by blast
qed

theorem intoxication_confidence_unclamped_witness:
  "request (fst (update_entity Q1 capped_drinker (\<lambda>n. 0.965)))
     = Some (capped_drinker, ''INTOXICATION_MONITOR'', 114)
   \<and> 40 \<le> score (calculateThreatScore capped_drinker Q1)
   \<and> score (calculateThreatScore capped_drinker Q1) < 60
   \<and> alcoholCount (session capped_drinker) = 8
   \<and> (114::int) = 50 + 8 * alcoholCount (session capped_drinker)
   \<and> alcoholCount (session (next_entity (fst (update_entity Q1 capped_drinker (\<lambda>n. 0.965))))) \<le> 8"
proof -
  note T = intoxication_confidence_unclamped[of Q1 capped_drinker "\<lambda>n. 0.965" capped_drinker
      "''INTOXICATION_MONITOR''" 114 "calculateThreatScore capped_drinker Q1" capped_drinker]
  have r: "request (fst (update_entity Q1 capped_drinker (\<lambda>n. 0.965)))
     = Some (capped_drinker, ''INTOXICATION_MONITOR'', 114)"
    using T by blast
  have s: "score (calculateThreatScore capped_drinker Q1) < 60"
    by (simp add: threat_capped_drinker)
  have d: "alcoholCount (session capped_drinker) = 8"
    and d3: "3 \<le> alcoholCount (session capped_drinker)"
    and d8: "alcoholCount (session capped_drinker) \<le> 8"
    by (simp_all add: capped_drinker_fields)
  have lo: "40 \<le> score (calculateThreatScore capped_drinker Q1)"
    using T r by blast
  have cf: "(114::int) = 50 + 8 * alcoholCount (session capped_drinker)"
    using T r s d3 by blast
  have cap: "alcoholCount (session (next_entity (fst (update_entity Q1 capped_drinker (\<lambda>n. 0.965))))) \<le> 8"
    using T d8 by blast
  from r lo s d cf cap show ?thesis
    by blast
qed

end
